theory Spec2Isabelle
  imports Main "HOL-Library.Multiset"
begin

section \<open>JavaScript values used by the client\<close>

text \<open>
  Strings are byte lists. JavaScript numbers are modelled as unbounded integers; the one
  non-integer value the code can produce, NaN, is \<open>None\<close> of an \<open>int option\<close>.
  A string is truthy when it is not empty; \<open>null\<close> and \<open>undefined\<close> are \<open>None\<close>
  of a \<open>string option\<close>.
\<close>

definition truthy :: "string \<Rightarrow> bool" where
  "truthy s = (s \<noteq> [])"

definition truthyOpt :: "string option \<Rightarrow> bool" where
  "truthyOpt v = (case v of None \<Rightarrow> False | Some s \<Rightarrow> truthy s)"

text \<open>\<open>String.prototype.includes\<close>: the argument occurs as a contiguous run.\<close>

fun startsWith :: "string \<Rightarrow> string \<Rightarrow> bool" where
  "startsWith s [] = True"
| "startsWith [] (c # cs) = False"
| "startsWith (d # ds) (c # cs) = (d = c \<and> startsWith ds cs)"

fun includesStr :: "string \<Rightarrow> string \<Rightarrow> bool" where
  "includesStr [] sub = (sub = [])"
| "includesStr (d # ds) sub = (startsWith (d # ds) sub \<or> includesStr ds sub)"

text \<open>Decimal rendering of a number inside a template literal.\<close>

definition digitChar :: "nat \<Rightarrow> char" where
  "digitChar n = char_of (48 + n)"

fun showNat :: "nat \<Rightarrow> string" where
  "showNat n = (if n < 10 then [digitChar n] else showNat (n div 10) @ [digitChar (n mod 10)])"

declare showNat.simps [simp del]

definition numToString :: "int \<Rightarrow> string" where
  "numToString i = (if i < 0 then CHR ''-'' # showNat (nat (- i)) else showNat (nat i))"

text \<open>
  \<open>parseInt(s, 10)\<close>: leading white space is skipped, one sign is read, then the longest
  run of decimal digits; with no digit the result is NaN. White space is the ASCII part
  of the language's white space set.
\<close>

definition isWhiteSpace :: "char \<Rightarrow> bool" where
  "isWhiteSpace c = ((of_char c :: nat) \<in> {9, 10, 11, 12, 13, 32})"

definition isDigit :: "char \<Rightarrow> bool" where
  "isDigit c = (48 \<le> (of_char c :: nat) \<and> (of_char c :: nat) \<le> 57)"

definition digitsValue :: "string \<Rightarrow> nat" where
  "digitsValue ds = foldl (\<lambda>acc c. 10 * acc + ((of_char c :: nat) - 48)) 0 ds"

definition parseInt :: "string \<Rightarrow> int option" where
  "parseInt s =
     (let s1 = dropWhile isWhiteSpace s;
          neg = (case s1 of [] \<Rightarrow> False | c # r \<Rightarrow> c = CHR ''-'');
          s2 = (case s1 of [] \<Rightarrow> [] | c # r \<Rightarrow> if c = CHR ''-'' \<or> c = CHR ''+'' then r else s1);
          ds = takeWhile isDigit s2
      in if ds = [] then None
         else Some (if neg then - int (digitsValue ds) else int (digitsValue ds)))"

text \<open>
  \<open>Array.prototype.sort\<close> with a comparator. The sort is stable, and an element moves
  behind another one only when the comparator's result for the pair is positive; a NaN
  result counts as zero. For a consistent comparator every stable sort gives this list.
\<close>

definition positive :: "int option \<Rightarrow> bool" where
  "positive v = (case v of None \<Rightarrow> False | Some n \<Rightarrow> 0 < n)"

fun insertBy :: "('a \<Rightarrow> 'a \<Rightarrow> int option) \<Rightarrow> 'a \<Rightarrow> 'a list \<Rightarrow> 'a list" where
  "insertBy cmp x [] = [x]"
| "insertBy cmp x (y # ys) =
     (if positive (cmp x y) then y # insertBy cmp x ys else x # y # ys)"

fun sortJS :: "('a \<Rightarrow> 'a \<Rightarrow> int option) \<Rightarrow> 'a list \<Rightarrow> 'a list" where
  "sortJS cmp [] = []"
| "sortJS cmp (x # xs) = insertBy cmp x (sortJS cmp xs)"

text \<open>Subtraction of two numbers, either of which may be NaN.\<close>

definition numSub :: "int option \<Rightarrow> int option \<Rightarrow> int option" where
  "numSub a b = (case a of None \<Rightarrow> None | Some x \<Rightarrow> (case b of None \<Rightarrow> None | Some y \<Rightarrow> Some (x - y)))"

section \<open>The run-time environment\<close>

text \<open>
  What the browser supplies to one evaluation of the dashboard's pipeline: the current
  instant \<open>now\<close> in milliseconds since the epoch (every \<open>new Date()\<close> of one evaluation
  reads the same instant); the instant \<open>daysAgo n\<close> that \<open>setDate(getDate() - n)\<close> yields
  from it and the instant \<open>monthAgo\<close> that \<open>setMonth(getMonth() - 1)\<close> yields from it,
  both by the calendar of the browser's time zone (the same local time of day \<open>n\<close> days
  or one month earlier, which is \<open>n\<close> times 24 hours earlier only when the offset of
  local time does not change in between); the engine's date parser (\<open>None\<close> is an
  invalid date, whose \<open>getTime()\<close> is NaN); and the engine's
  \<open>String.prototype.toLowerCase\<close>, which lowers every cased letter of Unicode.
\<close>

record env =
  now :: int
  daysAgo :: "int \<Rightarrow> int"
  monthAgo :: int
  parseDate :: "string \<Rightarrow> int option"
  toLowerCase :: "string \<Rightarrow> string"

text \<open>\<open>new Date(s).getTime()\<close>: the empty string is no date for any engine.\<close>

definition newDate :: "env \<Rightarrow> string \<Rightarrow> int option" where
  "newDate e s = (if s = [] then None else parseDate e s)"

definition msPerDay :: int where
  "msPerDay = 1000 * 60 * 60 * 24"

section \<open>Dashboard: data model\<close>

text \<open>The fields of \<open>Repository\<close> and \<open>RepositoryHealth\<close> that the pipeline reads.\<close>

record RepositoryHealth =
  stars :: int
  commitsLastMonth :: int
  lastCommitDate :: "string option"

record Repository =
  githubId :: string
  name :: string
  fullName :: string
  description :: "string option"
  primaryLanguage :: "string option"
  topics :: "string list"
  health :: RepositoryHealth
  goodFirstIssues :: int

datatype RecentActivity = Any | Week | Month

datatype SortBy = Stars | Updated

record Filters =
  language :: string
  minStars :: string
  recentActivity :: RecentActivity
  sortBy :: SortBy

section \<open>Dashboard: relative dates\<close>

text \<open>\<open>formatDate\<close> (the same text in both dashboard variants).\<close>

definition formatDate :: "env \<Rightarrow> string option \<Rightarrow> string" where
  "formatDate e dateString =
     (case dateString of
        None \<Rightarrow> ''N/A''
      | Some s \<Rightarrow>
          if \<not> truthy s then ''N/A''
          else (case newDate e s of
            None \<Rightarrow> ''NaN months ago''
          | Some date \<Rightarrow>
              (let diffTime = now e - date;
                   diffDays = diffTime div msPerDay
               in if diffDays = 0 then ''Today''
                  else if diffDays = 1 then ''Yesterday''
                  else if diffDays < 7 then numToString diffDays @ '' days ago''
                  else if diffDays < 30 then numToString (diffDays div 7) @ '' weeks ago''
                  else numToString (diffDays div 30) @ '' months ago'')))"

section \<open>Dashboard: filtering and sorting\<close>

text \<open>
  The search predicate of lines 256-261 (first variant) and 1141-1146 (second variant),
  on the lowercased search term.
\<close>

definition matchesSearch :: "env \<Rightarrow> string \<Rightarrow> Repository \<Rightarrow> bool" where
  "matchesSearch e lowercasedSearch p =
     (includesStr (toLowerCase e (name p)) lowercasedSearch \<or>
      (case description p of
         None \<Rightarrow> False
       | Some d \<Rightarrow> truthy d \<and> includesStr (toLowerCase e d) lowercasedSearch) \<or>
      includesStr (toLowerCase e (fullName p)) lowercasedSearch \<or>
      list_ex (\<lambda>t. includesStr (toLowerCase e t) lowercasedSearch) (topics p))"

text \<open>\<open>p.health.stars >= parseInt(filters.minStars, 10)\<close>: false against NaN.\<close>

definition starsAtLeast :: "Repository \<Rightarrow> int option \<Rightarrow> bool" where
  "starsAtLeast p m = (case m of None \<Rightarrow> False | Some n \<Rightarrow> n \<le> stars (health p))"

text \<open>
  \<open>p.health.lastCommitDate && new Date(p.health.lastCommitDate) > cutoff\<close>: false for
  a missing or empty date and for an invalid one.
\<close>

definition committedAfter :: "env \<Rightarrow> int \<Rightarrow> Repository \<Rightarrow> bool" where
  "committedAfter e cutoff p =
     (case lastCommitDate (health p) of
        None \<Rightarrow> False
      | Some s \<Rightarrow> truthy s \<and> (case newDate e s of None \<Rightarrow> False | Some t \<Rightarrow> cutoff < t))"

text \<open>
  The search and advanced filters: lines 252-275 of the first variant and lines
  1136-1161 of the second one, which are the same text.
\<close>

definition advancedFilters ::
  "env \<Rightarrow> Repository list \<Rightarrow> string \<Rightarrow> Filters \<Rightarrow> Repository list" where
  "advancedFilters e repositories searchTerm filters =
     (let results = repositories;
          lowercasedSearch = toLowerCase e searchTerm;
          results = (if truthy lowercasedSearch
                     then filter (matchesSearch e lowercasedSearch) results else results);
          results = (if truthy (language filters)
                     then filter (\<lambda>p. primaryLanguage p = Some (language filters)) results
                     else results);
          results = (if truthy (minStars filters)
                     then filter (\<lambda>p. starsAtLeast p (parseInt (minStars filters))) results
                     else results);
          results = (if recentActivity filters \<noteq> Any
                     then (let days = (if recentActivity filters = Week then 7 else 30);
                               cutoffDate = daysAgo e days
                           in filter (committedAfter e cutoffDate) results)
                     else results)
      in results)"

text \<open>The comparators handed to \<open>sort\<close>.\<close>

definition byStars :: "Repository \<Rightarrow> Repository \<Rightarrow> int option" where
  "byStars a b = Some (stars (health b) - stars (health a))"

definition byCommitsLastMonth :: "Repository \<Rightarrow> Repository \<Rightarrow> int option" where
  "byCommitsLastMonth a b = Some (commitsLastMonth (health b) - commitsLastMonth (health a))"

definition byGoodFirstIssues :: "Repository \<Rightarrow> Repository \<Rightarrow> int option" where
  "byGoodFirstIssues a b = Some (goodFirstIssues b - goodFirstIssues a)"

text \<open>
  \<open>a.health.lastCommitDate ? new Date(a.health.lastCommitDate).getTime() : 0\<close>
\<close>

definition commitTime :: "env \<Rightarrow> Repository \<Rightarrow> int option" where
  "commitTime e p =
     (case lastCommitDate (health p) of
        None \<Rightarrow> Some 0
      | Some s \<Rightarrow> if truthy s then newDate e s else Some 0)"

definition byUpdated :: "env \<Rightarrow> Repository \<Rightarrow> Repository \<Rightarrow> int option" where
  "byUpdated e a b = numSub (commitTime e b) (commitTime e a)"

text \<open>The default sorting: lines 297-305 and 1184-1192, the same text.\<close>

definition defaultSort :: "env \<Rightarrow> Filters \<Rightarrow> Repository list \<Rightarrow> Repository list" where
  "defaultSort e filters results =
     (case sortBy filters of
        Stars \<Rightarrow> sortJS byStars results
      | Updated \<Rightarrow> sortJS (byUpdated e) results)"

text \<open>The labels of the quick filters, as the bytes of the source text.\<close>

definition trendingLabel :: string where
  "trendingLabel =
     [CHR 0xEF, CHR 0xA3, CHR 0xBF, CHR 0xC3, CHR 0xBC, CHR 0xC3, CHR 0xAE, CHR 0xE2,
      CHR 0x80, CHR 0xA2] @ '' Trending''"

definition goodFirstIssuesLabel :: string where
  "goodFirstIssuesLabel =
     [CHR 0xEF, CHR 0xA3, CHR 0xBF, CHR 0xC3, CHR 0xBC, CHR 0xC3, CHR 0xA5, CHR 0xC2,
      CHR 0xB1] @ '' Good First Issues''"

definition activeTodayLabel :: string where
  "activeTodayLabel =
     [CHR 0xE2, CHR 0x80, CHR 0x9A, CHR 0xC3, CHR 0xB6, CHR 0xC2, CHR 0xB0] @ '' Active Today''"

definition hiddenGemsLabel :: string where
  "hiddenGemsLabel =
     [CHR 0xEF, CHR 0xA3, CHR 0xBF, CHR 0xC3, CHR 0xBC, CHR 0xC3, CHR 0xAD, CHR 0xC3,
      CHR 0xA9] @ '' Hidden Gems''"

definition isHiddenGem :: "Repository \<Rightarrow> bool" where
  "isHiddenGem p = (1000 < stars (health p) \<and> stars (health p) < 20000)"

definition activeToday :: "env \<Rightarrow> Repository \<Rightarrow> bool" where
  "activeToday e p =
     (truthyOpt (lastCommitDate (health p)) \<and> formatDate e (lastCommitDate (health p)) = ''Today'')"

text \<open>The \<open>switch\<close> of the first variant, lines 278-295.\<close>

definition quickFilter1 :: "env \<Rightarrow> string \<Rightarrow> Repository list \<Rightarrow> Repository list" where
  "quickFilter1 e activeQuickFilter results =
     (if activeQuickFilter = trendingLabel
        then sortJS byStars (filter (committedAfter e (monthAgo e)) results)
      else if activeQuickFilter = goodFirstIssuesLabel
        then filter (\<lambda>p. 0 < goodFirstIssues p) results
      else if activeQuickFilter = activeTodayLabel
        then filter (activeToday e) results
      else if activeQuickFilter = hiddenGemsLabel
        then filter isHiddenGem results
      else results)"

text \<open>The \<open>switch\<close> of the second variant, lines 1165-1182.\<close>

definition quickFilter2 :: "env \<Rightarrow> string \<Rightarrow> Repository list \<Rightarrow> Repository list" where
  "quickFilter2 e activeQuickFilter results =
     (if activeQuickFilter = trendingLabel
        then sortJS byCommitsLastMonth (filter (committedAfter e (monthAgo e)) results)
      else if activeQuickFilter = goodFirstIssuesLabel
        then sortJS byGoodFirstIssues (filter (\<lambda>p. 0 < goodFirstIssues p) results)
      else if activeQuickFilter = activeTodayLabel
        then filter (activeToday e) results
      else if activeQuickFilter = hiddenGemsLabel
        then sortJS byStars (filter isHiddenGem results)
      else results)"

text \<open>
  The list that the first variant's effect stores with \<open>setFilteredRepositories\<close>
  (lines 251-309), and the value of the second variant's memo (lines 1135-1196).
\<close>

definition filteredRepositories1 ::
  "env \<Rightarrow> Repository list \<Rightarrow> string \<Rightarrow> Filters \<Rightarrow> string \<Rightarrow> Repository list" where
  "filteredRepositories1 e repositories searchTerm filters activeQuickFilter =
     (let results = advancedFilters e repositories searchTerm filters
      in if truthy activeQuickFilter then quickFilter1 e activeQuickFilter results
         else defaultSort e filters results)"

definition filteredRepositories2 ::
  "env \<Rightarrow> Repository list \<Rightarrow> string \<Rightarrow> Filters \<Rightarrow> string \<Rightarrow> Repository list" where
  "filteredRepositories2 e repositories searchTerm filters activeQuickFilter =
     (let results = advancedFilters e repositories searchTerm filters
      in if truthy activeQuickFilter then quickFilter2 e activeQuickFilter results
         else defaultSort e filters results)"

text \<open>
  The dashboard's filter state and its handlers (the same text in both variants). A
  change event of the advanced filter form names the field and carries its new value.
\<close>

record Dashboard =
  searchTerm :: string
  filters :: Filters
  activeQuickFilter :: string

datatype FilterChange =
    ChangeLanguage string
  | ChangeMinStars string
  | ChangeRecentActivity RecentActivity
  | ChangeSortBy SortBy

definition initialFilters :: Filters where
  "initialFilters = \<lparr>language = [], minStars = [], recentActivity = Any, sortBy = Stars\<rparr>"

fun setFilter :: "FilterChange \<Rightarrow> Filters \<Rightarrow> Filters" where
  "setFilter (ChangeLanguage v) prev = prev\<lparr>language := v\<rparr>"
| "setFilter (ChangeMinStars v) prev = prev\<lparr>minStars := v\<rparr>"
| "setFilter (ChangeRecentActivity v) prev = prev\<lparr>recentActivity := v\<rparr>"
| "setFilter (ChangeSortBy v) prev = prev\<lparr>sortBy := v\<rparr>"

definition handleFilterChange :: "FilterChange \<Rightarrow> Dashboard \<Rightarrow> Dashboard" where
  "handleFilterChange ev d = d\<lparr>filters := setFilter ev (filters d), activeQuickFilter := []\<rparr>"

definition handleQuickFilterClick :: "string \<Rightarrow> Dashboard \<Rightarrow> Dashboard" where
  "handleQuickFilterClick filterName d =
     d\<lparr>activeQuickFilter := (if activeQuickFilter d = filterName then [] else filterName)\<rparr>"

definition handleClearFilters :: "Dashboard \<Rightarrow> Dashboard" where
  "handleClearFilters d = \<lparr>searchTerm = [], filters = initialFilters, activeQuickFilter = []\<rparr>"

section \<open>Authentication: the remote API\<close>

text \<open>
  \<open>services/api.ts\<close>. The request bodies are \<open>SignupRequest\<close> (name, email),
  \<open>LoginRequest\<close> (email) and \<open>VerifyOTPRequest\<close> (email, otp). The server is not part
  of the repository: it is a parameter that answers a POST, for the two families of
  endpoints, with an error that axios throws or with the response's data.
\<close>

datatype body =
    SignupRequest string string
  | LoginRequest string
  | VerifyOTPRequest string string

record AuthResponse =
  message :: string
  status :: int
  account_id :: string

record VerifyResponse =
  access_token :: string
  token_type :: string

text \<open>
  A thrown error as the handlers read it: \<open>error.response?.status\<close>,
  \<open>error.response?.data?.detail\<close>, \<open>error.response?.data?.message\<close>, \<open>error.code\<close>,
  and the name and message of the error object.
\<close>

record ErrorData =
  detail :: "string option"
  dataMessage :: "string option"

record ErrorResponse =
  httpStatus :: int
  responseData :: "ErrorData option"

record AxiosError =
  response :: "ErrorResponse option"
  code :: "string option"
  errName :: string
  errMessage :: string

record api =
  postAuth :: "string \<Rightarrow> body \<Rightarrow> AxiosError + AuthResponse"
  postVerify :: "string \<Rightarrow> body \<Rightarrow> AxiosError + VerifyResponse"

text \<open>What a handler does to the world outside its component, in order.\<close>

datatype effect =
    Post string body
  | SetItem string string
  | OnSuccess string
  | SetTimeout nat

definition createUser :: "api \<Rightarrow> string \<Rightarrow> string \<Rightarrow> effect list \<times> (AxiosError + AuthResponse)" where
  "createUser a nm email =
     ([Post ''/signup'' (SignupRequest nm email)], postAuth a ''/signup'' (SignupRequest nm email))"

definition login :: "api \<Rightarrow> string \<Rightarrow> effect list \<times> (AxiosError + AuthResponse)" where
  "login a email =
     ([Post ''/login'' (LoginRequest email)], postAuth a ''/login'' (LoginRequest email))"

definition verifySignup ::
  "api \<Rightarrow> string \<Rightarrow> string \<Rightarrow> effect list \<times> (AxiosError + VerifyResponse)" where
  "verifySignup a email otp =
     ([Post ''/verify-signup'' (VerifyOTPRequest email otp)],
      postVerify a ''/verify-signup'' (VerifyOTPRequest email otp))"

definition verifyLogin ::
  "api \<Rightarrow> string \<Rightarrow> string \<Rightarrow> effect list \<times> (AxiosError + VerifyResponse)" where
  "verifyLogin a email otp =
     ([Post ''/verify-login'' (VerifyOTPRequest email otp)],
      postVerify a ''/verify-login'' (VerifyOTPRequest email otp))"

datatype resendFormType = ResendSignup | ResendLogin

definition resendOTP ::
  "api \<Rightarrow> string \<Rightarrow> resendFormType \<Rightarrow> effect list \<times> (AxiosError + AuthResponse)" where
  "resendOTP a email formType =
     (if formType = ResendSignup
      then ([Post ''/signup'' (SignupRequest ''Resend'' email)],
            postAuth a ''/signup'' (SignupRequest ''Resend'' email))
      else ([Post ''/login'' (LoginRequest email)], postAuth a ''/login'' (LoginRequest email)))"

text \<open>Reading a thrown error.\<close>

definition responseStatus :: "AxiosError \<Rightarrow> int option" where
  "responseStatus error = (case response error of None \<Rightarrow> None | Some r \<Rightarrow> Some (httpStatus r))"

definition responseDetail :: "AxiosError \<Rightarrow> string option" where
  "responseDetail error =
     (case response error of
        None \<Rightarrow> None
      | Some r \<Rightarrow> (case responseData r of None \<Rightarrow> None | Some d \<Rightarrow> detail d))"

definition responseMessage :: "AxiosError \<Rightarrow> string option" where
  "responseMessage error =
     (case response error of
        None \<Rightarrow> None
      | Some r \<Rightarrow> (case responseData r of None \<Rightarrow> None | Some d \<Rightarrow> dataMessage d))"

text \<open>\<open>a || b\<close> on strings that may be missing, with a string literal at the end.\<close>

fun firstTruthy :: "string option list \<Rightarrow> string \<Rightarrow> string" where
  "firstTruthy [] dflt = dflt"
| "firstTruthy (None # vs) dflt = firstTruthy vs dflt"
| "firstTruthy (Some s # vs) dflt = (if truthy s then s else firstTruthy vs dflt)"

text \<open>The error object inside a template literal: \<open>Error.prototype.toString\<close>.\<close>

definition errorToString :: "AxiosError \<Rightarrow> string" where
  "errorToString error =
     (if errName error = [] then errMessage error
      else if errMessage error = [] then errName error
      else errName error @ '': '' @ errMessage error)"

section \<open>Authentication: the OTP modal\<close>

datatype formType = Signin | Signup

text \<open>
  The properties of \<open>OTPModal\<close>; \<open>otpFullName\<close> is its \<open>fullName\<close>, and \<open>onSuccess\<close>
  tells whether the callback is provided.
\<close>

record OTPModalProps =
  Email :: "string option"
  AccountId :: "string option"
  formtype :: "formType option"
  otpFullName :: "string option"
  onSuccess :: bool

record FormStatus =
  isLoading :: bool
  errorMessage :: string

record OTPModal = FormStatus +
  isOpen :: bool
  password :: string
  isResending :: bool
  successMessage :: string

type_synonym storage = "string \<rightharpoonup> string"

text \<open>The \<open>catch\<close> block of \<open>handleSubmit\<close>, lines 84-102.\<close>

definition verifyErrorMessage :: "AxiosError \<Rightarrow> string" where
  "verifyErrorMessage error =
     (if truthyOpt (responseDetail error) then firstTruthy [responseDetail error] []
      else if responseStatus error = Some 401 then ''Invalid OTP. Please try again.''
      else if responseStatus error = Some 404 then ''User not found. Please sign up first.''
      else if responseStatus error = Some 400 then ''Email already verified. Please log in.''
      else if responseStatus error = Some 403
        then ''Email not verified. Please complete signup first.''
      else if code error = Some ''ERR_NETWORK'' \<or> includesStr (errMessage error) ''Network Error''
        then ''Network error. Please check your connection.''
      else firstTruthy [responseMessage error, Some (errMessage error)]
             ''Failed to verify OTP. Please try again.'')"

text \<open>
  \<open>handleSubmit\<close>, lines 39-106. The result is the component's state, the local storage
  and the effects in the order they happen; closing the modal is left to the timer.
\<close>

definition handleSubmit ::
  "api \<Rightarrow> OTPModalProps \<Rightarrow> OTPModal \<times> storage \<Rightarrow> OTPModal \<times> storage \<times> effect list" where
  "handleSubmit a props sl =
     (let st = fst sl; ls = snd sl;
          rejected = (st\<lparr>errorMessage := ''Please enter a valid 6-digit OTP''\<rparr>, ls, [])
      in case Email props of
           None \<Rightarrow> rejected
         | Some email \<Rightarrow>
             if \<not> truthy email \<or> \<not> truthy (password st) \<or> length (password st) \<noteq> 6
             then rejected
             else
               (let st1 = st\<lparr>isLoading := True, errorMessage := [], successMessage := []\<rparr>;
                    call = (if formtype props = Some Signup
                            then verifySignup a email (password st)
                            else verifyLogin a email (password st))
                in case snd call of
                     Inr verify \<Rightarrow>
                       (let token = access_token verify;
                            ls1 = ls(''access_token'' \<mapsto> token);
                            ls2 = ls1(''token_type'' \<mapsto> token_type verify);
                            st2 = st1\<lparr>successMessage :=
                                          ''Verification successful! Redirecting...''\<rparr>
                        in (st2\<lparr>isLoading := False\<rparr>, ls2,
                            fst call @
                            [SetItem ''access_token'' token,
                             SetItem ''token_type'' (token_type verify)] @
                            (if onSuccess props then [OnSuccess token] else []) @
                            [SetTimeout 1500]))
                   | Inl error \<Rightarrow>
                       (st1\<lparr>errorMessage := verifyErrorMessage error, isLoading := False\<rparr>,
                        ls, fst call)))"

text \<open>\<open>handleResendOtp\<close>, lines 108-126.\<close>

definition handleResendOtp ::
  "api \<Rightarrow> OTPModalProps \<Rightarrow> OTPModal \<Rightarrow> OTPModal \<times> effect list" where
  "handleResendOtp a props st =
     (case Email props of
        None \<Rightarrow> (st, [])
      | Some email \<Rightarrow>
          if \<not> truthy email then (st, [])
          else
            (let st1 = st\<lparr>isResending := True, errorMessage := [], successMessage := []\<rparr>;
                 formTypeForResend =
                   (if formtype props = Some Signup then ResendSignup else ResendLogin);
                 call = resendOTP a email formTypeForResend
             in case snd call of
                  Inr r \<Rightarrow>
                    (st1\<lparr>successMessage := ''OTP resent successfully!'', password := [],
                         isResending := False\<rparr>, fst call)
                | Inl error \<Rightarrow>
                    (st1\<lparr>errorMessage :=
                           firstTruthy [responseDetail error, Some (errMessage error)]
                             ''Failed to resend OTP. Please try again.'',
                         isResending := False\<rparr>, fst call)))"

text \<open>Effects of one kind.\<close>

fun isPost :: "effect \<Rightarrow> bool" where
  "isPost (Post url b) = True"
| "isPost other = False"

fun isSetItem :: "effect \<Rightarrow> bool" where
  "isSetItem (SetItem k v) = True"
| "isSetItem other = False"

section \<open>Authentication: the credential form\<close>

text \<open>
  \<open>AuthForm\<close>: the submitted values \<open>values.FullName\<close> and \<open>values.Email\<close>, the
  account data that the modal is rendered from, and \<open>onSubmit\<close> (lines 69-112 of the
  component).
\<close>

record FormValues =
  FullName :: "string option"
  valuesEmail :: string

record AccountData =
  accountId :: string
  email :: string
  accountFullName :: "string option"

record AuthForm = FormStatus +
  accountData :: "AccountData option"

definition authErrorMessage :: "formType \<Rightarrow> AxiosError \<Rightarrow> string" where
  "authErrorMessage type error =
     (if truthyOpt (responseDetail error) then firstTruthy [responseDetail error] []
      else if responseStatus error = Some 404 \<and> type = Signin
        then ''Account not found. Please sign up first.''
      else if responseStatus error = Some 403
        then ''Email not verified. Please complete signup first.''
      else if responseStatus error = Some 400
        then ''User already exists. Please try logging in.''
      else ''Failed to '' @ (if type = Signup then ''create account'' else ''sign in'') @
           ''. Please try again.'' @ errorToString error)"

definition onSubmit :: "api \<Rightarrow> formType \<Rightarrow> FormValues \<Rightarrow> AuthForm \<Rightarrow> AuthForm \<times> effect list" where
  "onSubmit a type values st =
     (let st1 = st\<lparr>isLoading := True, errorMessage := []\<rparr>;
          call = (case FullName values of
                    None \<Rightarrow> login a (valuesEmail values)
                  | Some nm \<Rightarrow>
                      if type = Signup \<and> truthy nm
                      then createUser a nm (valuesEmail values)
                      else login a (valuesEmail values))
      in case snd call of
           Inr user \<Rightarrow>
             (st1\<lparr>accountData :=
                     Some \<lparr>accountId = account_id user, email = valuesEmail values,
                           accountFullName = FullName values\<rparr>,
                  isLoading := False\<rparr>, fst call)
         | Inl error \<Rightarrow>
             (st1\<lparr>errorMessage := authErrorMessage type error, isLoading := False\<rparr>, fst call))"

text \<open>
  The modal in the form's render: present exactly when \<open>accountData\<close> is set, with these
  properties.
\<close>

definition renderedModal :: "formType \<Rightarrow> AuthForm \<Rightarrow> OTPModalProps option" where
  "renderedModal type st =
     (case accountData st of
        None \<Rightarrow> None
      | Some d \<Rightarrow>
          Some \<lparr>Email = Some (email d), AccountId = Some (accountId d), formtype = Some type,
                otpFullName = accountFullName d, onSuccess = True\<rparr>)"

text \<open>
  The form together with the modal it renders. \<open>OTPModal\<close> keeps its own state: it is
  mounted with the initial values of its \<open>useState\<close> calls (lines 32-37, \<open>isOpen\<close> is
  true) when \<open>accountData\<close> becomes set, it keeps that state while \<open>accountData\<close> stays
  set, since the form renders it at the same place, and it is unmounted when
  \<open>accountData\<close> becomes \<open>null\<close>. The dialog is shown when the mounted modal's
  \<open>isOpen\<close> is true (\<open>open={isOpen}\<close>, line 134).
\<close>

record AuthPage =
  form :: AuthForm
  modal :: "OTPModal option"

definition initialModal :: OTPModal where
  "initialModal =
     \<lparr>isLoading = False, errorMessage = [], isOpen = True, password = [],
      isResending = False, successMessage = []\<rparr>"

definition rerender :: "AuthForm \<Rightarrow> OTPModal option \<Rightarrow> OTPModal option" where
  "rerender st mounted =
     (case accountData st of
        None \<Rightarrow> None
      | Some d \<Rightarrow> (case mounted of None \<Rightarrow> Some initialModal | Some m \<Rightarrow> Some m))"

definition submitPage ::
  "api \<Rightarrow> formType \<Rightarrow> FormValues \<Rightarrow> AuthPage \<Rightarrow> AuthPage \<times> effect list" where
  "submitPage a type values pg =
     (let r = onSubmit a type values (form pg)
      in (\<lparr>form = fst r, modal = rerender (fst r) (modal pg)\<rparr>, snd r))"

text \<open>
  The two ways the dialog closes. The dialog component calls \<open>onOpenChange\<close>, which is
  \<open>setIsOpen\<close> (line 134), and nothing else happens. The close icon calls \<open>handleClose\<close>
  (lines 128-131), which also calls \<open>onClose\<close>, the form's \<open>handleOTPClose\<close>: it sets
  \<open>accountData\<close> to \<open>null\<close>, and the modal is unmounted.
\<close>

definition onOpenChange :: "bool \<Rightarrow> AuthPage \<Rightarrow> AuthPage" where
  "onOpenChange v pg =
     pg\<lparr>modal := (case modal pg of None \<Rightarrow> None | Some m \<Rightarrow> Some (m\<lparr>isOpen := v\<rparr>))\<rparr>"

definition handleClose :: "AuthPage \<Rightarrow> AuthPage" where
  "handleClose pg =
     (let st = (form pg)\<lparr>accountData := None\<rparr>
      in \<lparr>form = st, modal = rerender st (modal pg)\<rparr>)"

definition modalOpen :: "AuthPage \<Rightarrow> bool" where
  "modalOpen pg = (case modal pg of None \<Rightarrow> False | Some m \<Rightarrow> isOpen m)"

section \<open>The route guard\<close>

text \<open>
  \<open>PrivateRoute\<close>: what it returns, and the navigation of its effect (path and the
  \<open>replace\<close> option). In \<open>App\<close> the guard is the element of \<open>/dashboard\<close> and the
  dashboard is its only child, so the outlet shows the dashboard.
\<close>

datatype element = Outlet | Null

definition PrivateRoute :: "storage \<Rightarrow> element \<times> (string \<times> bool) option" where
  "PrivateRoute localStorage =
     (let token = localStorage ''access_token''
      in (if truthyOpt token then Outlet else Null,
          if \<not> truthyOpt token then Some (''/signin'', True) else None))"

datatype view = Hero | Nothing

definition dashboardRoute :: "storage \<Rightarrow> view \<times> (string \<times> bool) option" where
  "dashboardRoute localStorage =
     (case PrivateRoute localStorage of
        (Outlet, nav) \<Rightarrow> (Hero, nav)
      | (Null, nav) \<Rightarrow> (Nothing, nav))"

section \<open>Sample data\<close>

text \<open>
  Concrete inputs for the examples below: a clock fixed at 2023-11-14T22:13:20Z in a
  time zone with a fixed offset, a date parser that knows the dates of the samples, a
  lowering of the ASCII letters, four of the second variant's sample repositories
  (Next.js today, Godot three days ago, FastAPI eight days ago, Lobsters fifteen days
  ago), and a server that accepts the passcode 123456. \<open>newYorkEnv\<close> is the same
  instant for a browser in New York, where daylight saving time ended on 2023-11-05:
  30 days before 17:13:20 EST of 2023-11-14 is 17:13:20 EDT of 2023-10-15, one hour
  more than 30 times 24 hours earlier.
\<close>

definition lowerChar :: "char \<Rightarrow> char" where
  "lowerChar c =
     (let n = of_char c :: nat
      in if 65 \<le> n \<and> n \<le> 90 then char_of (n + 32) else c)"

definition asciiLowerCase :: "string \<Rightarrow> string" where
  "asciiLowerCase s = map lowerChar s"

definition sampleParse :: "string \<Rightarrow> int option" where
  "sampleParse s =
     (if s = ''2023-11-14T22:13:20.000Z'' then Some 1700000000000
      else if s = ''2023-11-13T22:13:20.000Z'' then Some 1699913600000
      else if s = ''2023-11-11T22:13:20.000Z'' then Some 1699740800000
      else if s = ''2023-11-06T22:13:20.000Z'' then Some 1699308800000
      else if s = ''2023-10-30T22:13:20.000Z'' then Some 1698704000000
      else if s = ''2023-10-15T21:43:20.000Z'' then Some 1697406200000
      else if s = ''2023-09-30T22:13:20.000Z'' then Some 1696112000000
      else None)"

definition sampleEnv :: env where
  "sampleEnv =
     \<lparr>now = 1700000000000, daysAgo = (\<lambda>n. 1700000000000 - n * 86400000),
      monthAgo = 1697321600000, parseDate = sampleParse, toLowerCase = asciiLowerCase\<rparr>"

definition newYorkEnv :: env where
  "newYorkEnv =
     \<lparr>now = 1700000000000,
      daysAgo = (\<lambda>n. if n = 30 then 1697404400000 else 1700000000000 - n * 86400000),
      monthAgo = 1697318000000, parseDate = sampleParse, toLowerCase = asciiLowerCase\<rparr>"

definition monthOld :: Repository where
  "monthOld =
     \<lparr>githubId = ''1'', name = ''Month Old'', fullName = ''nobody/month-old'',
      description = None, primaryLanguage = None, topics = [],
      health = \<lparr>stars = 10, commitsLastMonth = 1,
                lastCommitDate = Some ''2023-10-15T21:43:20.000Z''\<rparr>,
      goodFirstIssues = 0\<rparr>"

definition nextjs :: Repository where
  "nextjs =
     \<lparr>githubId = ''70107786'', name = ''Next.js'', fullName = ''vercel/next.js'',
      description = Some ''The React Framework for Production.'',
      primaryLanguage = Some ''JavaScript'',
      topics = [''react'', ''framework'', ''ssr'', ''jamstack'', ''nodejs''],
      health = \<lparr>stars = 118000, commitsLastMonth = 700,
                lastCommitDate = Some ''2023-11-14T22:13:20.000Z''\<rparr>,
      goodFirstIssues = 200\<rparr>"

definition godot :: Repository where
  "godot =
     \<lparr>githubId = ''23372612'', name = ''Godot Engine'', fullName = ''godotengine/godot'',
      description = Some ''Multi-platform 2D and 3D game engine.'',
      primaryLanguage = Some ''C++'',
      topics = [''game-engine'', ''gamedev'', ''cpp'', ''cross-platform'', ''3d''],
      health = \<lparr>stars = 81000, commitsLastMonth = 900,
                lastCommitDate = Some ''2023-11-11T22:13:20.000Z''\<rparr>,
      goodFirstIssues = 500\<rparr>"

definition fastapi :: Repository where
  "fastapi =
     \<lparr>githubId = ''159293338'', name = ''FastAPI'', fullName = ''tiangolo/fastapi'',
      description = Some ''FastAPI framework, high performance, easy to learn'',
      primaryLanguage = Some ''Python'',
      topics = [''python'', ''api'', ''framework'', ''async'', ''web''],
      health = \<lparr>stars = 68000, commitsLastMonth = 150,
                lastCommitDate = Some ''2023-11-06T22:13:20.000Z''\<rparr>,
      goodFirstIssues = 120\<rparr>"

definition lobsters :: Repository where
  "lobsters =
     \<lparr>githubId = ''479585'', name = ''Lobsters'', fullName = ''lobsters/lobsters'',
      description = Some ''Computing-focused community centered around link aggregation.'',
      primaryLanguage = Some ''Ruby'',
      topics = [''rails'', ''ruby'', ''community'', ''forum''],
      health = \<lparr>stars = 3800, commitsLastMonth = 50,
                lastCommitDate = Some ''2023-10-30T22:13:20.000Z''\<rparr>,
      goodFirstIssues = 30\<rparr>"

definition undated :: Repository where
  "undated =
     \<lparr>githubId = ''0'', name = ''Undated'', fullName = ''nobody/undated'',
      description = None, primaryLanguage = None, topics = [],
      health = \<lparr>stars = 10, commitsLastMonth = 0, lastCommitDate = None\<rparr>,
      goodFirstIssues = 0\<rparr>"

definition sampleRepositories :: "Repository list" where
  "sampleRepositories = [nextjs, godot, fastapi, lobsters]"

definition invalidOtp :: AxiosError where
  "invalidOtp =
     \<lparr>response = Some \<lparr>httpStatus = 401, responseData = None\<rparr>, code = Some ''ERR_BAD_REQUEST'',
      errName = ''AxiosError'', errMessage = ''Request failed with status code 401''\<rparr>"

definition accountNotFound :: AxiosError where
  "accountNotFound =
     \<lparr>response = Some \<lparr>httpStatus = 404, responseData = None\<rparr>, code = Some ''ERR_BAD_REQUEST'',
      errName = ''AxiosError'', errMessage = ''Request failed with status code 404''\<rparr>"

definition sampleApi :: api where
  "sampleApi =
     \<lparr>postAuth = (\<lambda>url b.
        if b = LoginRequest ''nobody@example.com'' then Inl accountNotFound
        else Inr \<lparr>message = ''OTP sent'', status = 200, account_id = ''acc-42''\<rparr>),
      postVerify = (\<lambda>url b.
        if b = VerifyOTPRequest ''ada@example.com'' ''123456''
        then Inr \<lparr>access_token = ''tok-1'', token_type = ''bearer''\<rparr>
        else Inl invalidOtp)\<rparr>"

definition sampleProps :: OTPModalProps where
  "sampleProps =
     \<lparr>Email = Some ''ada@example.com'', AccountId = Some ''acc-42'', formtype = Some Signup,
      otpFullName = Some ''Ada Lovelace'', onSuccess = True\<rparr>"

definition sampleModal :: OTPModal where
  "sampleModal =
     \<lparr>isLoading = False, errorMessage = [], isOpen = True, password = ''123456'',
      isResending = False, successMessage = []\<rparr>"

definition sampleForm :: AuthForm where
  "sampleForm = \<lparr>isLoading = False, errorMessage = [], accountData = None\<rparr>"

definition sampleValues :: FormValues where
  "sampleValues = \<lparr>FullName = Some ''Ada Lovelace'', valuesEmail = ''ada@example.com''\<rparr>"

definition samplePage :: AuthPage where
  "samplePage = \<lparr>form = sampleForm, modal = None\<rparr>"

definition pyFilters :: Filters where
  "pyFilters =
     \<lparr>language = ''Python'', minStars = ''1000'', recentActivity = Month, sortBy = Stars\<rparr>"

section \<open>Facts about the JavaScript primitives\<close>

lemma startsWith_iff: "startsWith s sub \<longleftrightarrow> (\<exists>post. s = sub @ post)"
  by (induction s sub rule: startsWith.induct) auto

lemma includesStr_iff: "includesStr s sub \<longleftrightarrow> (\<exists>pre post. s = pre @ sub @ post)"
proof (induction s)
  case Nil
  then show ?case by auto
next
  case (Cons d ds)
  show ?case
  proof
    assume "includesStr (d # ds) sub"
    then consider "startsWith (d # ds) sub" | "includesStr ds sub" by auto
    then show "\<exists>pre post. d # ds = pre @ sub @ post"
    proof cases
      case 1
      then obtain post where "d # ds = sub @ post" by (auto simp: startsWith_iff)
      then have "d # ds = [] @ sub @ post" by simp
      then show ?thesis by blast
    next
      case 2
      then obtain pre post where "ds = pre @ sub @ post" using Cons.IH by auto
      then have "d # ds = (d # pre) @ sub @ post" by simp
      then show ?thesis by blast
    qed
  next
    assume "\<exists>pre post. d # ds = pre @ sub @ post"
    then obtain pre post where eq: "d # ds = pre @ sub @ post" by blast
    show "includesStr (d # ds) sub"
    proof (cases pre)
      case Nil
      with eq have "startsWith (d # ds) sub" by (auto simp: startsWith_iff)
      then show ?thesis by simp
    next
      case (Cons c cs)
      with eq have "ds = cs @ sub @ post" by simp
      then have "includesStr ds sub" using Cons.IH by blast
      then show ?thesis by simp
    qed
  qed
qed

lemma mset_insertBy: "mset (insertBy cmp x ys) = add_mset x (mset ys)"
  by (induction ys) auto

lemma mset_sortJS: "mset (sortJS cmp xs) = mset xs"
  by (induction xs) (auto simp: mset_insertBy)

lemma set_sortJS: "set (sortJS cmp xs) = set xs"
  using mset_sortJS [of cmp xs] by (metis set_mset_mset)

lemma firstTruthy_nonempty: "dflt \<noteq> [] \<Longrightarrow> firstTruthy vs dflt \<noteq> []"
  by (induction vs dflt rule: firstTruthy.induct) (auto simp: truthy_def)

lemma firstTruthy_detail: "truthyOpt v \<Longrightarrow> firstTruthy [v] [] \<noteq> []"
  by (cases v) (auto simp: truthyOpt_def truthy_def)

lemma sample_newDate:
  "newDate sampleEnv ''2023-11-14T22:13:20.000Z'' = Some 1700000000000"
  "newDate sampleEnv ''2023-11-13T22:13:20.000Z'' = Some 1699913600000"
  "newDate sampleEnv ''2023-11-11T22:13:20.000Z'' = Some 1699740800000"
  "newDate sampleEnv ''2023-10-30T22:13:20.000Z'' = Some 1698704000000"
  "newDate sampleEnv ''2023-09-30T22:13:20.000Z'' = Some 1696112000000"
  by (simp_all add: newDate_def sampleEnv_def sampleParse_def)

section \<open>The filter stage of the dashboard\<close>

lemma matchesSearch_iff:
  assumes le: "\<forall>s. (toLowerCase e s = []) = (s = [])" and "term \<noteq> []"
  shows "matchesSearch e (toLowerCase e term) p \<longleftrightarrow>
           includesStr (toLowerCase e (name p)) (toLowerCase e term) \<or>
           (\<exists>d. description p = Some d \<and> includesStr (toLowerCase e d) (toLowerCase e term)) \<or>
           includesStr (toLowerCase e (fullName p)) (toLowerCase e term) \<or>
           (\<exists>t \<in> set (topics p). includesStr (toLowerCase e t) (toLowerCase e term))"
proof -
  have ne: "toLowerCase e term \<noteq> []" using assms by simp
  have d: "(case description p of None \<Rightarrow> False
            | Some d \<Rightarrow> truthy d \<and> includesStr (toLowerCase e d) (toLowerCase e term))
           \<longleftrightarrow> (\<exists>d. description p = Some d \<and>
                  includesStr (toLowerCase e d) (toLowerCase e term))"
  proof (cases "description p")
    case None
    then show ?thesis by simp
  next
    case (Some d)
    show ?thesis
    proof (cases "d = []")
      case True
      then have "toLowerCase e d = []" using le by simp
      with Some ne True show ?thesis by (simp add: truthy_def)
    next
      case False
      with Some show ?thesis by (simp add: truthy_def)
    qed
  qed
  show ?thesis
    unfolding matchesSearch_def d by (simp add: list_ex_iff)
qed

lemma starsAtLeast_iff:
  "starsAtLeast p v \<longleftrightarrow> (\<exists>m. v = Some m \<and> m \<le> stars (health p))"
  by (cases v) (auto simp: starsAtLeast_def)

lemma committedAfter_iff:
  "committedAfter e c p \<longleftrightarrow>
     (\<exists>s t. lastCommitDate (health p) = Some s \<and> newDate e s = Some t \<and> c < t)"
proof (cases "lastCommitDate (health p)")
  case None
  then show ?thesis by (simp add: committedAfter_def)
next
  case (Some s)
  show ?thesis
  proof (cases "s = []")
    case True
    with Some show ?thesis by (simp add: committedAfter_def truthy_def newDate_def)
  next
    case False
    with Some show ?thesis
      by (cases "newDate e s") (auto simp: committedAfter_def truthy_def)
  qed
qed

lemma mset_defaultSort: "mset (defaultSort e f xs) = mset xs"
  by (cases "sortBy f") (auto simp: defaultSort_def mset_sortJS)

lemma set_quickFilter1: "set (quickFilter1 e q xs) \<subseteq> set xs"
  by (auto simp: quickFilter1_def set_sortJS)

lemma set_quickFilter2: "set (quickFilter2 e q xs) \<subseteq> set xs"
  by (auto simp: quickFilter2_def set_sortJS)

text \<open>
  C1, as amended. The engine's \<open>toLowerCase\<close> gives the empty string for the empty
  string only. For every list of repositories, search term and advanced filter state,
  the filter stage (the same in both variants) keeps exactly the repositories that
  satisfy all active predicates, in their order: with a non-empty search term, the
  lowercased term occurs in the lowercased name, description, full name or some topic;
  with a language selected, the primary language is that language; with a minimum of
  stars entered, \<open>parseInt\<close> reads a number from it and the stars are at least that
  number; with recent activity set to week or month, the last commit date is present
  and parses to an instant strictly after the instant 7 or 30 days before now, the days
  counted by the calendar as \<open>setDate(getDate() - n)\<close> counts them. An empty string or
  \<open>any\<close> excludes nothing. With no quick filter active, the list that either variant
  shows has exactly these repositories; with a quick filter active, it has only
  repositories among these.
\<close>

theorem advancedFilters_conjunction:
  assumes "\<forall>s. (toLowerCase e s = []) = (s = [])"
  shows "advancedFilters e repositories term f =
     filter (\<lambda>p.
       (term \<noteq> [] \<longrightarrow>
          includesStr (toLowerCase e (name p)) (toLowerCase e term) \<or>
          (\<exists>d. description p = Some d \<and>
               includesStr (toLowerCase e d) (toLowerCase e term)) \<or>
          includesStr (toLowerCase e (fullName p)) (toLowerCase e term) \<or>
          (\<exists>t \<in> set (topics p). includesStr (toLowerCase e t) (toLowerCase e term))) \<and>
       (language f \<noteq> [] \<longrightarrow> primaryLanguage p = Some (language f)) \<and>
       (minStars f \<noteq> [] \<longrightarrow> (\<exists>m. parseInt (minStars f) = Some m \<and> m \<le> stars (health p))) \<and>
       (recentActivity f \<noteq> Any \<longrightarrow>
          (\<exists>s t. lastCommitDate (health p) = Some s \<and> newDate e s = Some t \<and>
                 daysAgo e (if recentActivity f = Week then 7 else 30) < t)))
       repositories \<and>
   mset (filteredRepositories1 e repositories term f []) =
     mset (advancedFilters e repositories term f) \<and>
   mset (filteredRepositories2 e repositories term f []) =
     mset (advancedFilters e repositories term f) \<and>
   set (filteredRepositories1 e repositories term f q) \<subseteq>
     set (advancedFilters e repositories term f) \<and>
   set (filteredRepositories2 e repositories term f q) \<subseteq>
     set (advancedFilters e repositories term f)"
proof -
  have le: "(toLowerCase e term = []) = (term = [])" using assms by simp
  have stage: "advancedFilters e repositories term f = filter (\<lambda>p.
       (term \<noteq> [] \<longrightarrow> matchesSearch e (toLowerCase e term) p) \<and>
       (language f \<noteq> [] \<longrightarrow> primaryLanguage p = Some (language f)) \<and>
       (minStars f \<noteq> [] \<longrightarrow> starsAtLeast p (parseInt (minStars f))) \<and>
       (recentActivity f \<noteq> Any \<longrightarrow>
          committedAfter e (daysAgo e (if recentActivity f = Week then 7 else 30)) p))
       repositories"
    by (simp add: advancedFilters_def Let_def truthy_def le conj_commute cong: conj_cong)
  have "advancedFilters e repositories term f = filter (\<lambda>p.
       (term \<noteq> [] \<longrightarrow>
          includesStr (toLowerCase e (name p)) (toLowerCase e term) \<or>
          (\<exists>d. description p = Some d \<and>
               includesStr (toLowerCase e d) (toLowerCase e term)) \<or>
          includesStr (toLowerCase e (fullName p)) (toLowerCase e term) \<or>
          (\<exists>t \<in> set (topics p). includesStr (toLowerCase e t) (toLowerCase e term))) \<and>
       (language f \<noteq> [] \<longrightarrow> primaryLanguage p = Some (language f)) \<and>
       (minStars f \<noteq> [] \<longrightarrow> (\<exists>m. parseInt (minStars f) = Some m \<and> m \<le> stars (health p))) \<and>
       (recentActivity f \<noteq> Any \<longrightarrow>
          (\<exists>s t. lastCommitDate (health p) = Some s \<and> newDate e s = Some t \<and>
                 daysAgo e (if recentActivity f = Week then 7 else 30) < t)))
       repositories"
    unfolding stage
    by (rule filter_cong [OF refl])
       (simp add: matchesSearch_iff [OF assms] starsAtLeast_iff committedAfter_iff
          cong: imp_cong)
  moreover have "mset (filteredRepositories1 e repositories term f []) =
     mset (advancedFilters e repositories term f)"
    by (simp add: filteredRepositories1_def truthy_def mset_defaultSort)
  moreover have "mset (filteredRepositories2 e repositories term f []) =
     mset (advancedFilters e repositories term f)"
    by (simp add: filteredRepositories2_def truthy_def mset_defaultSort)
  moreover have "set (filteredRepositories1 e repositories term f q) \<subseteq>
     set (advancedFilters e repositories term f)"
    using set_quickFilter1 [of e q "advancedFilters e repositories term f"]
      mset_defaultSort [of e f "advancedFilters e repositories term f"]
    by (auto simp: filteredRepositories1_def Let_def dest: mset_eq_setD)
  moreover have "set (filteredRepositories2 e repositories term f q) \<subseteq>
     set (advancedFilters e repositories term f)"
    using set_quickFilter2 [of e q "advancedFilters e repositories term f"]
      mset_defaultSort [of e f "advancedFilters e repositories term f"]
    by (auto simp: filteredRepositories2_def Let_def dest: mset_eq_setD)
  ultimately show ?thesis by blast
qed

theorem advancedFilters_conjunction_witness:
  "''FRAME'' \<noteq> [] \<and> language pyFilters \<noteq> [] \<and> minStars pyFilters \<noteq> [] \<and>
   recentActivity pyFilters \<noteq> Any \<and>
   advancedFilters sampleEnv sampleRepositories ''FRAME'' pyFilters = [fastapi] \<and>
   mset (filteredRepositories2 sampleEnv sampleRepositories ''FRAME'' pyFilters []) = {#fastapi#} \<and>
   mset (filteredRepositories1 sampleEnv sampleRepositories ''FRAME'' pyFilters []) = {#fastapi#} \<and>
   set (filteredRepositories2 sampleEnv sampleRepositories ''FRAME'' pyFilters hiddenGemsLabel)
     \<subseteq> {fastapi}"
proof -
  have le: "\<forall>s. (toLowerCase sampleEnv s = []) = (s = [])"
    by (simp add: sampleEnv_def asciiLowerCase_def)
  have a: "advancedFilters sampleEnv sampleRepositories ''FRAME'' pyFilters = [fastapi]"
    by code_simp
  have h: "language pyFilters \<noteq> [] \<and> minStars pyFilters \<noteq> [] \<and> recentActivity pyFilters \<noteq> Any"
    by (simp add: pyFilters_def)
  note c = conjunct2 [OF advancedFilters_conjunction [OF le,
      of sampleRepositories "''FRAME''" pyFilters hiddenGemsLabel]]
  have m: "mset (filteredRepositories1 sampleEnv sampleRepositories ''FRAME'' pyFilters []) =
             mset [fastapi] \<and>
           mset (filteredRepositories2 sampleEnv sampleRepositories ''FRAME'' pyFilters []) =
             mset [fastapi] \<and>
           set (filteredRepositories1 sampleEnv sampleRepositories ''FRAME'' pyFilters
                  hiddenGemsLabel) \<subseteq> set [fastapi] \<and>
           set (filteredRepositories2 sampleEnv sampleRepositories ''FRAME'' pyFilters
                  hiddenGemsLabel) \<subseteq> set [fastapi]"
    using c unfolding a .
  show ?thesis using a h m by simp
qed

text \<open>
  The claim as stated fails in two ways. With the quick filter Hidden Gems active and
  nothing searched or selected, every predicate is inactive, so Next.js satisfies the
  conjunction, but the list that either variant shows is Lobsters alone. And in New
  York on 2023-11-14 a commit made 30 days and 30 minutes before now passes the filter
  of the past month, although it is not after now minus 30 times 24 hours; with a fixed
  offset of local time the same commit is dropped.
\<close>

theorem advancedFilters_counterexample:
  "language initialFilters = [] \<and> minStars initialFilters = [] \<and>
   recentActivity initialFilters = Any \<and> nextjs \<in> set sampleRepositories \<and>
   filteredRepositories2 sampleEnv sampleRepositories [] initialFilters hiddenGemsLabel =
     [lobsters] \<and>
   filteredRepositories1 sampleEnv sampleRepositories [] initialFilters hiddenGemsLabel =
     [lobsters] \<and>
   nextjs \<notin> set (filteredRepositories2 sampleEnv sampleRepositories [] initialFilters
                    hiddenGemsLabel) \<and>
   lastCommitDate (health monthOld) = Some ''2023-10-15T21:43:20.000Z'' \<and>
   newDate newYorkEnv ''2023-10-15T21:43:20.000Z'' = Some 1697406200000 \<and>
   \<not> now newYorkEnv - 30 * 86400000 < 1697406200000 \<and>
   advancedFilters newYorkEnv [monthOld] [] (initialFilters\<lparr>recentActivity := Month\<rparr>) =
     [monthOld] \<and>
   advancedFilters sampleEnv [monthOld] [] (initialFilters\<lparr>recentActivity := Month\<rparr>) = []"
proof -
  have f: "language initialFilters = [] \<and> minStars initialFilters = [] \<and>
   recentActivity initialFilters = Any"
    by (simp add: initialFilters_def)
  have i: "nextjs \<in> set sampleRepositories" by (simp add: sampleRepositories_def)
  have r2: "filteredRepositories2 sampleEnv sampleRepositories [] initialFilters
     hiddenGemsLabel = [lobsters]"
    by code_simp
  have r1: "filteredRepositories1 sampleEnv sampleRepositories [] initialFilters
     hiddenGemsLabel = [lobsters]"
    by code_simp
  have n: "nextjs \<noteq> lobsters" by (simp add: nextjs_def lobsters_def)
  have d: "lastCommitDate (health monthOld) = Some ''2023-10-15T21:43:20.000Z''"
    by (simp add: monthOld_def)
  have p: "newDate newYorkEnv ''2023-10-15T21:43:20.000Z'' = Some 1697406200000"
    by (simp add: newDate_def newYorkEnv_def sampleParse_def)
  have c: "\<not> now newYorkEnv - 30 * 86400000 < 1697406200000"
    by (simp add: newYorkEnv_def)
  have k: "advancedFilters newYorkEnv [monthOld] [] (initialFilters\<lparr>recentActivity := Month\<rparr>) =
     [monthOld]"
    by code_simp
  have l: "advancedFilters sampleEnv [monthOld] [] (initialFilters\<lparr>recentActivity := Month\<rparr>) =
     []"
    by code_simp
  show ?thesis using f i r1 r2 n d p c k l by simp
qed

section \<open>The OTP modal\<close>

lemma verifyErrorMessage_nonempty: "verifyErrorMessage error \<noteq> []"
  unfolding verifyErrorMessage_def
  by (simp add: firstTruthy_nonempty firstTruthy_detail)

text \<open>
  C2. In the verification step, that is when the modal has an email and a passcode of
  six characters, \<open>handleSubmit\<close> posts one request, to \<open>/verify-signup\<close> for a signup
  and to \<open>/verify-login\<close> otherwise. When the request returns, the access token and the
  token type of the answer are written to the storage, and these are the only writes.
  When the request fails, nothing is written, the storage is what it was, and the error
  message is set to a non-empty text.
\<close>

theorem handleSubmit_tokens:
  assumes "Email props = Some em" and "em \<noteq> []" and "length (password st) = 6"
  shows "filter isPost (snd (snd (handleSubmit a props (st, ls)))) =
           [Post (if formtype props = Some Signup then ''/verify-signup'' else ''/verify-login'')
              (VerifyOTPRequest em (password st))] \<and>
         (case postVerify a (if formtype props = Some Signup then ''/verify-signup''
                           else ''/verify-login'') (VerifyOTPRequest em (password st)) of
           Inr verify \<Rightarrow>
             fst (snd (handleSubmit a props (st, ls))) =
               ls(''access_token'' \<mapsto> access_token verify, ''token_type'' \<mapsto> token_type verify) \<and>
             filter isSetItem (snd (snd (handleSubmit a props (st, ls)))) =
               [SetItem ''access_token'' (access_token verify),
                SetItem ''token_type'' (token_type verify)]
         | Inl error \<Rightarrow>
             fst (snd (handleSubmit a props (st, ls))) = ls \<and>
             filter isSetItem (snd (snd (handleSubmit a props (st, ls)))) = [] \<and>
             errorMessage (fst (handleSubmit a props (st, ls))) = verifyErrorMessage error \<and>
             errorMessage (fst (handleSubmit a props (st, ls))) \<noteq> [])"
  using assms verifyErrorMessage_nonempty
  by (auto simp: handleSubmit_def Let_def truthy_def verifySignup_def verifyLogin_def
           split: sum.splits)

theorem handleSubmit_tokens_witness:
  "Email sampleProps = Some ''ada@example.com'' \<and> ''ada@example.com'' \<noteq> [] \<and>
   length (password sampleModal) = 6 \<and>
   fst (snd (handleSubmit sampleApi sampleProps (sampleModal, Map.empty))) =
     [''access_token'' \<mapsto> ''tok-1'', ''token_type'' \<mapsto> ''bearer''] \<and>
   filter isSetItem (snd (snd (handleSubmit sampleApi sampleProps (sampleModal, Map.empty)))) =
     [SetItem ''access_token'' ''tok-1'', SetItem ''token_type'' ''bearer''] \<and>
   length (password (sampleModal\<lparr>password := ''000000''\<rparr>)) = 6 \<and>
   fst (snd (handleSubmit sampleApi sampleProps
               (sampleModal\<lparr>password := ''000000''\<rparr>, [''theme'' \<mapsto> ''dark'']))) =
     [''theme'' \<mapsto> ''dark''] \<and>
   filter isSetItem (snd (snd (handleSubmit sampleApi sampleProps
               (sampleModal\<lparr>password := ''000000''\<rparr>, [''theme'' \<mapsto> ''dark''])))) = [] \<and>
   errorMessage (fst (handleSubmit sampleApi sampleProps
               (sampleModal\<lparr>password := ''000000''\<rparr>, [''theme'' \<mapsto> ''dark'']))) =
     ''Invalid OTP. Please try again.''"
proof -
  have e: "Email sampleProps = Some ''ada@example.com''" by (simp add: sampleProps_def)
  have n: "''ada@example.com'' \<noteq> []" by simp
  have l1: "length (password sampleModal) = 6" by (simp add: sampleModal_def)
  have l2: "length (password (sampleModal\<lparr>password := ''000000''\<rparr>)) = 6" by simp
  have v: "verifyErrorMessage invalidOtp = ''Invalid OTP. Please try again.''"
    by (simp add: verifyErrorMessage_def invalidOtp_def responseDetail_def responseStatus_def
          truthyOpt_def)
  note ok = handleSubmit_tokens [OF e n l1, of sampleApi Map.empty]
  note bad = handleSubmit_tokens [OF e n l2, of sampleApi "[''theme'' \<mapsto> ''dark'']"]
  show ?thesis
    using ok bad e l1 v
    by (simp add: sampleApi_def sampleProps_def sampleModal_def)
qed

text \<open>
  C8. \<open>handleSubmit\<close> posts a request only when the email is present (defined and not
  empty) and the passcode has exactly six characters. On every other input it does
  nothing but set the error message \<open>Please enter a valid 6-digit OTP\<close>: no request,
  no other effect, and the storage unchanged.
\<close>

theorem handleSubmit_guard:
  "(filter isPost (snd (snd (handleSubmit a props (st, ls)))) \<noteq> [] \<longrightarrow>
      (\<exists>em. Email props = Some em \<and> em \<noteq> []) \<and> length (password st) = 6) \<and>
   (\<not> ((\<exists>em. Email props = Some em \<and> em \<noteq> []) \<and> length (password st) = 6) \<longrightarrow>
      handleSubmit a props (st, ls) =
        (st\<lparr>errorMessage := ''Please enter a valid 6-digit OTP''\<rparr>, ls, []))"
  by (cases "Email props")
     (auto simp: handleSubmit_def Let_def truthy_def split: sum.splits)

theorem handleSubmit_guard_witness:
  "filter isPost (snd (snd (handleSubmit sampleApi sampleProps (sampleModal, Map.empty)))) \<noteq> [] \<and>
   (\<exists>em. Email sampleProps = Some em \<and> em \<noteq> []) \<and> length (password sampleModal) = 6 \<and>
   \<not> ((\<exists>em. Email sampleProps = Some em \<and> em \<noteq> []) \<and>
       length (password (sampleModal\<lparr>password := ''12345''\<rparr>)) = 6) \<and>
   handleSubmit sampleApi sampleProps (sampleModal\<lparr>password := ''12345''\<rparr>, Map.empty) =
     (sampleModal\<lparr>password := ''12345'', errorMessage := ''Please enter a valid 6-digit OTP''\<rparr>,
      Map.empty, []) \<and>
   \<not> ((\<exists>em. Email (sampleProps\<lparr>Email := None\<rparr>) = Some em \<and> em \<noteq> []) \<and>
       length (password sampleModal) = 6) \<and>
   handleSubmit sampleApi (sampleProps\<lparr>Email := None\<rparr>) (sampleModal, [''theme'' \<mapsto> ''dark'']) =
     (sampleModal\<lparr>errorMessage := ''Please enter a valid 6-digit OTP''\<rparr>,
      [''theme'' \<mapsto> ''dark''], [])"
proof -
  have p: "filter isPost (snd (snd (handleSubmit sampleApi sampleProps (sampleModal, Map.empty))))
           \<noteq> []"
    by (simp add: handleSubmit_def sampleProps_def sampleModal_def sampleApi_def Let_def
          truthy_def verifySignup_def)
  have g: "(\<exists>em. Email sampleProps = Some em \<and> em \<noteq> []) \<and> length (password sampleModal) = 6"
    using handleSubmit_guard [of sampleApi sampleProps sampleModal Map.empty] p by blast
  have s: "\<not> ((\<exists>em. Email sampleProps = Some em \<and> em \<noteq> []) \<and>
       length (password (sampleModal\<lparr>password := ''12345''\<rparr>)) = 6)" by simp
  have n: "\<not> ((\<exists>em. Email (sampleProps\<lparr>Email := None\<rparr>) = Some em \<and> em \<noteq> []) \<and>
       length (password sampleModal) = 6)" by simp
  have r1: "handleSubmit sampleApi sampleProps (sampleModal\<lparr>password := ''12345''\<rparr>, Map.empty) =
     (sampleModal\<lparr>password := ''12345'', errorMessage := ''Please enter a valid 6-digit OTP''\<rparr>,
      Map.empty, [])"
    using handleSubmit_guard
      [of sampleApi sampleProps "sampleModal\<lparr>password := ''12345''\<rparr>" Map.empty] s
    by simp
  have r2: "handleSubmit sampleApi (sampleProps\<lparr>Email := None\<rparr>)
       (sampleModal, [''theme'' \<mapsto> ''dark'']) =
     (sampleModal\<lparr>errorMessage := ''Please enter a valid 6-digit OTP''\<rparr>,
      [''theme'' \<mapsto> ''dark''], [])"
    using handleSubmit_guard
      [of sampleApi "sampleProps\<lparr>Email := None\<rparr>" sampleModal "[''theme'' \<mapsto> ''dark'']"] n
    by blast
  show ?thesis using p g s n r1 r2 by blast
qed

text \<open>
  C10. A resend from the modal, with an email present, posts exactly one request. For a
  signup it goes to \<open>/signup\<close> with the constant name \<open>Resend\<close> and the email, whatever
  full name the modal was given; otherwise it goes to \<open>/login\<close> with the email alone.
\<close>

theorem resend_sends_placeholder_name:
  assumes "Email props = Some em" and "em \<noteq> []"
  shows "snd (handleResendOtp a props st) =
           (if formtype props = Some Signup
            then [Post ''/signup'' (SignupRequest ''Resend'' em)]
            else [Post ''/login'' (LoginRequest em)]) \<and>
         fst (resendOTP a em ResendSignup) = [Post ''/signup'' (SignupRequest ''Resend'' em)] \<and>
         fst (resendOTP a em ResendLogin) = [Post ''/login'' (LoginRequest em)]"
  using assms
  by (auto simp: handleResendOtp_def resendOTP_def Let_def truthy_def split: sum.splits)

theorem resend_sends_placeholder_name_witness:
  "Email sampleProps = Some ''ada@example.com'' \<and> ''ada@example.com'' \<noteq> [] \<and>
   otpFullName sampleProps = Some ''Ada Lovelace'' \<and>
   snd (handleResendOtp sampleApi sampleProps sampleModal) =
     [Post ''/signup'' (SignupRequest ''Resend'' ''ada@example.com'')] \<and>
   snd (handleResendOtp sampleApi (sampleProps\<lparr>formtype := Some Signin\<rparr>) sampleModal) =
     [Post ''/login'' (LoginRequest ''ada@example.com'')]"
proof -
  have e: "Email sampleProps = Some ''ada@example.com''" by (simp add: sampleProps_def)
  have e2: "Email (sampleProps\<lparr>formtype := Some Signin\<rparr>) = Some ''ada@example.com''"
    by (simp add: sampleProps_def)
  have n: "''ada@example.com'' \<noteq> []" by simp
  have f: "formtype sampleProps = Some Signup" "otpFullName sampleProps = Some ''Ada Lovelace''"
    by (simp_all add: sampleProps_def)
  note su = resend_sends_placeholder_name [OF e n, of sampleApi sampleModal]
  note si = resend_sends_placeholder_name [OF e2 n, of sampleApi sampleModal]
  show ?thesis using su si e f by simp
qed

section \<open>The credential form\<close>

lemma authErrorMessage_nonempty: "authErrorMessage type error \<noteq> []"
  unfolding authErrorMessage_def
  by (simp add: firstTruthy_detail)

text \<open>
  In every state \<open>onSubmit\<close> posts one request. When the request returns, the account
  data is set to the \<open>account_id\<close> of the answer, the entered email and the entered
  name; when it fails, the account data is what it was and the error message is set to
  a non-empty text.
\<close>

lemma onSubmit_accountData:
  "\<exists>url b. snd (onSubmit a type values st) = [Post url b] \<and>
     (case postAuth a url b of
        Inr user \<Rightarrow>
          accountData (fst (onSubmit a type values st)) =
            Some \<lparr>accountId = account_id user, email = valuesEmail values,
                  accountFullName = FullName values\<rparr>
      | Inl error \<Rightarrow>
          accountData (fst (onSubmit a type values st)) = accountData st \<and>
          errorMessage (fst (onSubmit a type values st)) = authErrorMessage type error \<and>
          errorMessage (fst (onSubmit a type values st)) \<noteq> [])"
  using authErrorMessage_nonempty
  by (cases "FullName values")
     (auto simp: onSubmit_def Let_def createUser_def login_def split: sum.splits)

text \<open>
  From a form with no account data, so with no modal mounted, the flow is sequential:
  \<open>onSubmit\<close> posts, for a signup with a non-empty full name, \<open>createUser\<close>'s request
  with that name and the entered email, and otherwise \<open>login\<close>'s request with the email
  only. When that request returns, the modal is rendered with the \<open>account_id\<close> of the
  answer; when it fails, no modal is rendered and the error message is set to a
  non-empty text.
\<close>

theorem onSubmit_sequential:
  assumes "accountData st = None"
  shows "(\<forall>nm. type = Signup \<and> FullName values = Some nm \<and> nm \<noteq> [] \<longrightarrow>
            snd (onSubmit a type values st) =
              [Post ''/signup'' (SignupRequest nm (valuesEmail values))]) \<and>
         (\<not> (type = Signup \<and> (\<exists>nm. FullName values = Some nm \<and> nm \<noteq> [])) \<longrightarrow>
            snd (onSubmit a type values st) = [Post ''/login'' (LoginRequest (valuesEmail values))]) \<and>
         (\<forall>url b. snd (onSubmit a type values st) = [Post url b] \<longrightarrow>
            (case postAuth a url b of
               Inr user \<Rightarrow>
                 renderedModal type (fst (onSubmit a type values st)) =
                   Some \<lparr>Email = Some (valuesEmail values), AccountId = Some (account_id user),
                         formtype = Some type, otpFullName = FullName values, onSuccess = True\<rparr>
             | Inl error \<Rightarrow>
                 renderedModal type (fst (onSubmit a type values st)) = None \<and>
                 errorMessage (fst (onSubmit a type values st)) = authErrorMessage type error \<and>
                 errorMessage (fst (onSubmit a type values st)) \<noteq> []))"
  using assms authErrorMessage_nonempty
  by (cases "FullName values")
     (auto simp: onSubmit_def Let_def truthy_def createUser_def login_def renderedModal_def
           split: sum.splits)

theorem onSubmit_sequential_witness:
  "accountData sampleForm = None \<and>
   snd (onSubmit sampleApi Signup
          \<lparr>FullName = Some ''Ada Lovelace'', valuesEmail = ''ada@example.com''\<rparr> sampleForm) =
     [Post ''/signup'' (SignupRequest ''Ada Lovelace'' ''ada@example.com'')] \<and>
   renderedModal Signup (fst (onSubmit sampleApi Signup
          \<lparr>FullName = Some ''Ada Lovelace'', valuesEmail = ''ada@example.com''\<rparr> sampleForm)) =
     Some \<lparr>Email = Some ''ada@example.com'', AccountId = Some ''acc-42'',
           formtype = Some Signup, otpFullName = Some ''Ada Lovelace'', onSuccess = True\<rparr> \<and>
   snd (onSubmit sampleApi Signin
          \<lparr>FullName = None, valuesEmail = ''nobody@example.com''\<rparr> sampleForm) =
     [Post ''/login'' (LoginRequest ''nobody@example.com'')] \<and>
   renderedModal Signin (fst (onSubmit sampleApi Signin
          \<lparr>FullName = None, valuesEmail = ''nobody@example.com''\<rparr> sampleForm)) = None \<and>
   errorMessage (fst (onSubmit sampleApi Signin
          \<lparr>FullName = None, valuesEmail = ''nobody@example.com''\<rparr> sampleForm)) =
     ''Account not found. Please sign up first.''"
proof -
  have c: "accountData sampleForm = None" by (simp add: sampleForm_def)
  note up = onSubmit_sequential [OF c, of Signup
      "\<lparr>FullName = Some ''Ada Lovelace'', valuesEmail = ''ada@example.com''\<rparr>" sampleApi]
  note inn = onSubmit_sequential [OF c, of Signin
      "\<lparr>FullName = None, valuesEmail = ''nobody@example.com''\<rparr>" sampleApi]
  have p1: "snd (onSubmit sampleApi Signup
          \<lparr>FullName = Some ''Ada Lovelace'', valuesEmail = ''ada@example.com''\<rparr> sampleForm) =
     [Post ''/signup'' (SignupRequest ''Ada Lovelace'' ''ada@example.com'')]"
    using up by simp
  have p2: "snd (onSubmit sampleApi Signin
          \<lparr>FullName = None, valuesEmail = ''nobody@example.com''\<rparr> sampleForm) =
     [Post ''/login'' (LoginRequest ''nobody@example.com'')]"
    using inn by simp
  have m: "authErrorMessage Signin accountNotFound = ''Account not found. Please sign up first.''"
    by (simp add: authErrorMessage_def accountNotFound_def responseDetail_def
          responseStatus_def truthyOpt_def)
  have a1: "postAuth sampleApi ''/signup'' (SignupRequest ''Ada Lovelace'' ''ada@example.com'') =
             Inr \<lparr>message = ''OTP sent'', status = 200, account_id = ''acc-42''\<rparr>"
    by (simp add: sampleApi_def)
  have a2: "postAuth sampleApi ''/login'' (LoginRequest ''nobody@example.com'') =
             Inl accountNotFound"
    by (simp add: sampleApi_def)
  have c1: "case postAuth sampleApi ''/signup''
                   (SignupRequest ''Ada Lovelace'' ''ada@example.com'') of
              Inr user \<Rightarrow>
                renderedModal Signup (fst (onSubmit sampleApi Signup
                  \<lparr>FullName = Some ''Ada Lovelace'', valuesEmail = ''ada@example.com''\<rparr>
                  sampleForm)) =
                Some \<lparr>Email = Some (valuesEmail
                          \<lparr>FullName = Some ''Ada Lovelace'', valuesEmail = ''ada@example.com''\<rparr>),
                      AccountId = Some (account_id user), formtype = Some Signup,
                      otpFullName = FullName
                          \<lparr>FullName = Some ''Ada Lovelace'', valuesEmail = ''ada@example.com''\<rparr>,
                      onSuccess = True\<rparr>
            | Inl error \<Rightarrow>
                renderedModal Signup (fst (onSubmit sampleApi Signup
                  \<lparr>FullName = Some ''Ada Lovelace'', valuesEmail = ''ada@example.com''\<rparr>
                  sampleForm)) = None \<and>
                errorMessage (fst (onSubmit sampleApi Signup
                  \<lparr>FullName = Some ''Ada Lovelace'', valuesEmail = ''ada@example.com''\<rparr>
                  sampleForm)) = authErrorMessage Signup error \<and>
                errorMessage (fst (onSubmit sampleApi Signup
                  \<lparr>FullName = Some ''Ada Lovelace'', valuesEmail = ''ada@example.com''\<rparr>
                  sampleForm)) \<noteq> []"
    using up p1 by blast
  have r1: "renderedModal Signup (fst (onSubmit sampleApi Signup
          \<lparr>FullName = Some ''Ada Lovelace'', valuesEmail = ''ada@example.com''\<rparr> sampleForm)) =
     Some \<lparr>Email = Some ''ada@example.com'', AccountId = Some ''acc-42'',
           formtype = Some Signup, otpFullName = Some ''Ada Lovelace'', onSuccess = True\<rparr>"
    using c1 unfolding a1 by simp
  have c2: "case postAuth sampleApi ''/login'' (LoginRequest ''nobody@example.com'') of
              Inr user \<Rightarrow>
                renderedModal Signin (fst (onSubmit sampleApi Signin
                  \<lparr>FullName = None, valuesEmail = ''nobody@example.com''\<rparr> sampleForm)) =
                Some \<lparr>Email = Some (valuesEmail
                          \<lparr>FullName = None, valuesEmail = ''nobody@example.com''\<rparr>),
                      AccountId = Some (account_id user), formtype = Some Signin,
                      otpFullName = FullName
                          \<lparr>FullName = None, valuesEmail = ''nobody@example.com''\<rparr>,
                      onSuccess = True\<rparr>
            | Inl error \<Rightarrow>
                renderedModal Signin (fst (onSubmit sampleApi Signin
                  \<lparr>FullName = None, valuesEmail = ''nobody@example.com''\<rparr> sampleForm)) = None \<and>
                errorMessage (fst (onSubmit sampleApi Signin
                  \<lparr>FullName = None, valuesEmail = ''nobody@example.com''\<rparr> sampleForm)) =
                  authErrorMessage Signin error \<and>
                errorMessage (fst (onSubmit sampleApi Signin
                  \<lparr>FullName = None, valuesEmail = ''nobody@example.com''\<rparr> sampleForm)) \<noteq> []"
    using inn p2 by blast
  have r2: "renderedModal Signin (fst (onSubmit sampleApi Signin
          \<lparr>FullName = None, valuesEmail = ''nobody@example.com''\<rparr> sampleForm)) = None \<and>
   errorMessage (fst (onSubmit sampleApi Signin
          \<lparr>FullName = None, valuesEmail = ''nobody@example.com''\<rparr> sampleForm)) =
     ''Account not found. Please sign up first.''"
    using c2 m unfolding a2 by simp
  show ?thesis using c p1 p2 r1 r2 by simp
qed

lemma submitPage_opens_unmounted:
  assumes "modal pg = None" and "accountData (form pg) = None"
  shows "modalOpen (fst (submitPage a type values pg)) \<longleftrightarrow>
           accountData (form (fst (submitPage a type values pg))) \<noteq> None"
  using assms
  by (auto simp: submitPage_def modalOpen_def rerender_def initialModal_def Let_def
           split: option.splits)

text \<open>
  C4. The form is written to show the modal when the credential call succeeds, and from
  a form with no account data it does (the two facts above). It misses one case. When
  the dialog component closes the dialog through \<open>onOpenChange\<close>, the modal's \<open>isOpen\<close>
  becomes false and the account data stays set, where the close icon's \<open>handleClose\<close>
  also clears it. The next submission succeeds, posts \<open>createUser\<close>'s request and sets
  the account data again, but the modal is still mounted with \<open>isOpen\<close> false: no modal
  opens. After \<open>handleClose\<close> the same submission opens it.
\<close>

theorem submit_after_dismissed_dialog:
  "modalOpen (fst (submitPage sampleApi Signup sampleValues samplePage)) \<and>
   \<not> modalOpen (onOpenChange False (fst (submitPage sampleApi Signup sampleValues samplePage))) \<and>
   accountData (form (onOpenChange False
       (fst (submitPage sampleApi Signup sampleValues samplePage)))) \<noteq> None \<and>
   snd (submitPage sampleApi Signup sampleValues
       (onOpenChange False (fst (submitPage sampleApi Signup sampleValues samplePage)))) =
     [Post ''/signup'' (SignupRequest ''Ada Lovelace'' ''ada@example.com'')] \<and>
   postAuth sampleApi ''/signup'' (SignupRequest ''Ada Lovelace'' ''ada@example.com'') =
     Inr \<lparr>message = ''OTP sent'', status = 200, account_id = ''acc-42''\<rparr> \<and>
   renderedModal Signup (form (fst (submitPage sampleApi Signup sampleValues
       (onOpenChange False (fst (submitPage sampleApi Signup sampleValues samplePage)))))) =
     Some \<lparr>Email = Some ''ada@example.com'', AccountId = Some ''acc-42'',
           formtype = Some Signup, otpFullName = Some ''Ada Lovelace'', onSuccess = True\<rparr> \<and>
   \<not> modalOpen (fst (submitPage sampleApi Signup sampleValues
       (onOpenChange False (fst (submitPage sampleApi Signup sampleValues samplePage))))) \<and>
   modalOpen (fst (submitPage sampleApi Signup sampleValues
       (handleClose (fst (submitPage sampleApi Signup sampleValues samplePage)))))"
  by (simp add: submitPage_def onOpenChange_def handleClose_def modalOpen_def rerender_def
        initialModal_def onSubmit_def createUser_def renderedModal_def sampleApi_def
        sampleValues_def samplePage_def sampleForm_def Let_def truthy_def)

section \<open>The route guard and the relative dates\<close>

text \<open>
  C9. \<open>PrivateRoute\<close> returns the outlet, which in \<open>App\<close> shows the dashboard, exactly
  when the storage holds a non-empty \<open>access_token\<close>, and then it does not navigate.
  Otherwise it returns nothing and navigates to \<open>/signin\<close>, replacing the history entry.
\<close>

theorem PrivateRoute_guard:
  "PrivateRoute ls =
     (if \<exists>t. ls ''access_token'' = Some t \<and> t \<noteq> [] then (Outlet, None)
      else (Null, Some (''/signin'', True))) \<and>
   dashboardRoute ls =
     (if \<exists>t. ls ''access_token'' = Some t \<and> t \<noteq> [] then (Hero, None)
      else (Nothing, Some (''/signin'', True)))"
  by (cases "ls ''access_token''")
     (auto simp: PrivateRoute_def dashboardRoute_def truthyOpt_def truthy_def Let_def)

theorem PrivateRoute_guard_witness:
  "dashboardRoute [''access_token'' \<mapsto> ''tok-1''] = (Hero, None) \<and>
   PrivateRoute [''access_token'' \<mapsto> ''tok-1''] = (Outlet, None) \<and>
   dashboardRoute Map.empty = (Nothing, Some (''/signin'', True)) \<and>
   dashboardRoute [''access_token'' \<mapsto> ''''] = (Nothing, Some (''/signin'', True)) \<and>
   PrivateRoute [''token_type'' \<mapsto> ''bearer''] = (Null, Some (''/signin'', True))"
  using PrivateRoute_guard [of "[''access_token'' \<mapsto> ''tok-1'']"]
    PrivateRoute_guard [of Map.empty]
    PrivateRoute_guard [of "[''access_token'' \<mapsto> '''']"]
    PrivateRoute_guard [of "[''token_type'' \<mapsto> ''bearer'']"]
  by simp

text \<open>
  C5. \<open>formatDate\<close> maps \<open>null\<close> to \<open>N/A\<close>. For a date string that parses to the instant
  \<open>t\<close>, with \<open>d\<close> the whole days elapsed between \<open>t\<close> and now (rounded down): \<open>d = 0\<close>
  gives \<open>Today\<close>, \<open>d = 1\<close> gives \<open>Yesterday\<close>, \<open>2 \<le> d < 7\<close> gives \<open>d days ago\<close>,
  \<open>7 \<le> d < 30\<close> gives \<open>d div 7\<close> weeks ago, and \<open>30 \<le> d\<close> gives \<open>d div 30\<close> months ago.
\<close>

theorem formatDate_buckets:
  assumes "s \<noteq> []" and "newDate e s = Some t" and "d = (now e - t) div 86400000"
  shows "formatDate e None = ''N/A'' \<and>
         (d = 0 \<longrightarrow> formatDate e (Some s) = ''Today'') \<and>
         (d = 1 \<longrightarrow> formatDate e (Some s) = ''Yesterday'') \<and>
         (2 \<le> d \<and> d < 7 \<longrightarrow> formatDate e (Some s) = numToString d @ '' days ago'') \<and>
         (7 \<le> d \<and> d < 30 \<longrightarrow> formatDate e (Some s) = numToString (d div 7) @ '' weeks ago'') \<and>
         (30 \<le> d \<longrightarrow> formatDate e (Some s) = numToString (d div 30) @ '' months ago'')"
  using assms
  by (auto simp: formatDate_def truthy_def msPerDay_def Let_def)

theorem formatDate_buckets_witness:
  "formatDate sampleEnv None = ''N/A'' \<and>
   formatDate sampleEnv (Some ''2023-11-14T22:13:20.000Z'') = ''Today'' \<and>
   formatDate sampleEnv (Some ''2023-11-13T22:13:20.000Z'') = ''Yesterday'' \<and>
   formatDate sampleEnv (Some ''2023-11-11T22:13:20.000Z'') = ''3 days ago'' \<and>
   formatDate sampleEnv (Some ''2023-10-30T22:13:20.000Z'') = ''2 weeks ago'' \<and>
   formatDate sampleEnv (Some ''2023-09-30T22:13:20.000Z'') = ''1 months ago''"
proof -
  have n: "now sampleEnv = 1700000000000" by (simp add: sampleEnv_def)
  have s3: "numToString 3 = ''3''" and s2: "numToString 2 = ''2''" and s1: "numToString 1 = ''1''"
    by code_simp+
  have d0: "(0::int) = (now sampleEnv - 1700000000000) div 86400000" by (simp add: n)
  have d1: "(1::int) = (now sampleEnv - 1699913600000) div 86400000" by (simp add: n)
  have d3: "(3::int) = (now sampleEnv - 1699740800000) div 86400000" by (simp add: n)
  have d15: "(15::int) = (now sampleEnv - 1698704000000) div 86400000" by (simp add: n)
  have d45: "(45::int) = (now sampleEnv - 1696112000000) div 86400000" by (simp add: n)
  note b0 = formatDate_buckets [OF _ sample_newDate(1) d0]
  note b1 = formatDate_buckets [OF _ sample_newDate(2) d1]
  note b3 = formatDate_buckets [OF _ sample_newDate(3) d3]
  note b15 = formatDate_buckets [OF _ sample_newDate(4) d15]
  note b45 = formatDate_buckets [OF _ sample_newDate(5) d45]
  show ?thesis using b0 b1 b3 b15 b45 s1 s2 s3 by simp
qed


section \<open>Sorting in the dashboard\<close>

lemma set_insertBy: "set (insertBy cmp x ys) = insert x (set ys)"
  using mset_insertBy [of cmp x ys] by (metis set_mset_mset set_mset_add_mset_insert)

lemma sorted_insertBy:
  assumes "\<forall>a \<in> insert x (set ys). \<forall>b \<in> insert x (set ys). cmp a b = Some (k b - k a)"
    and "sorted_wrt (\<lambda>a b. k b \<le> k a) ys"
  shows "sorted_wrt (\<lambda>a b. (k b :: int) \<le> k a) (insertBy cmp x ys)"
  using assms
proof (induction ys)
  case Nil
  then show ?case by simp
next
  case (Cons y ys)
  have c: "cmp x y = Some (k y - k x)" using Cons.prems(1) by simp
  show ?case
  proof (cases "positive (cmp x y)")
    case True
    then have lt: "k x < k y" using c by (simp add: positive_def)
    have "sorted_wrt (\<lambda>a b. k b \<le> k a) (insertBy cmp x ys)"
      using Cons.IH Cons.prems by simp
    moreover have "\<forall>z \<in> set (insertBy cmp x ys). k z \<le> k y"
      using Cons.prems(2) lt by (auto simp: set_insertBy)
    ultimately show ?thesis using True by simp
  next
    case False
    then have ge: "k y \<le> k x" using c by (simp add: positive_def)
    then have "\<forall>z \<in> set (y # ys). k z \<le> k x"
      using Cons.prems(2) by auto
    then show ?thesis using False Cons.prems(2) by simp
  qed
qed

lemma sorted_sortJS:
  assumes "\<forall>a \<in> set xs. \<forall>b \<in> set xs. cmp a b = Some (k b - k a)"
  shows "sorted_wrt (\<lambda>a b. (k b :: int) \<le> k a) (sortJS cmp xs)"
  using assms
proof (induction xs)
  case Nil
  then show ?case by simp
next
  case (Cons x xs)
  have "sorted_wrt (\<lambda>a b. k b \<le> k a) (sortJS cmp xs)" using Cons by simp
  moreover have "\<forall>a \<in> insert x (set (sortJS cmp xs)).
                   \<forall>b \<in> insert x (set (sortJS cmp xs)). cmp a b = Some (k b - k a)"
    using Cons.prems by (simp add: set_sortJS)
  ultimately show ?case using sorted_insertBy [of x "sortJS cmp xs" cmp k] by simp
qed

lemma sorted_byStars:
  "sorted_wrt (\<lambda>a b. stars (health b) \<le> stars (health a)) (sortJS byStars xs)"
  by (rule sorted_sortJS) (simp add: byStars_def)

lemma sorted_byCommitsLastMonth:
  "sorted_wrt (\<lambda>a b. commitsLastMonth (health b) \<le> commitsLastMonth (health a))
     (sortJS byCommitsLastMonth xs)"
  by (rule sorted_sortJS) (simp add: byCommitsLastMonth_def)

lemma sorted_byGoodFirstIssues:
  "sorted_wrt (\<lambda>a b. goodFirstIssues b \<le> goodFirstIssues a) (sortJS byGoodFirstIssues xs)"
  by (rule sorted_sortJS) (simp add: byGoodFirstIssues_def)

lemma commitTime_valid:
  assumes "\<forall>s. lastCommitDate (health p) = Some s \<and> s \<noteq> [] \<longrightarrow> newDate e s \<noteq> None"
  shows "commitTime e p =
           Some (case lastCommitDate (health p) of
                   None \<Rightarrow> 0
                 | Some s \<Rightarrow> (case newDate e s of None \<Rightarrow> 0 | Some t \<Rightarrow> t))"
proof (cases "lastCommitDate (health p)")
  case None
  then show ?thesis by (simp add: commitTime_def)
next
  case (Some s)
  show ?thesis
  proof (cases "s = []")
    case True
    with Some show ?thesis by (simp add: commitTime_def truthy_def newDate_def)
  next
    case False
    with Some assms obtain t where "newDate e s = Some t" by auto
    with Some False show ?thesis by (simp add: commitTime_def truthy_def)
  qed
qed

lemma sorted_byUpdated:
  assumes "\<forall>p \<in> set xs. \<forall>s. lastCommitDate (health p) = Some s \<and> s \<noteq> [] \<longrightarrow>
             newDate e s \<noteq> None"
  shows "sorted_wrt
           (\<lambda>a b. (case lastCommitDate (health b) of
                      None \<Rightarrow> 0
                    | Some s \<Rightarrow> (case newDate e s of None \<Rightarrow> 0 | Some t \<Rightarrow> t))
                 \<le> (case lastCommitDate (health a) of
                      None \<Rightarrow> 0
                    | Some s \<Rightarrow> (case newDate e s of None \<Rightarrow> (0::int) | Some t \<Rightarrow> t)))
           (sortJS (byUpdated e) xs)"
proof (rule sorted_sortJS, intro ballI)
  fix a b
  assume "a \<in> set xs" and "b \<in> set xs"
  then have "commitTime e a =
           Some (case lastCommitDate (health a) of
                   None \<Rightarrow> 0
                 | Some s \<Rightarrow> (case newDate e s of None \<Rightarrow> 0 | Some t \<Rightarrow> t))"
    and "commitTime e b =
           Some (case lastCommitDate (health b) of
                   None \<Rightarrow> 0
                 | Some s \<Rightarrow> (case newDate e s of None \<Rightarrow> 0 | Some t \<Rightarrow> t))"
    using assms commitTime_valid by blast+
  then show "byUpdated e a b =
      Some ((case lastCommitDate (health b) of
               None \<Rightarrow> 0
             | Some s \<Rightarrow> (case newDate e s of None \<Rightarrow> 0 | Some t \<Rightarrow> t))
          - (case lastCommitDate (health a) of
               None \<Rightarrow> 0
             | Some s \<Rightarrow> (case newDate e s of None \<Rightarrow> 0 | Some t \<Rightarrow> t)))"
    by (simp add: byUpdated_def numSub_def)
qed

lemma set_advancedFilters: "set (advancedFilters e repositories term f) \<subseteq> set repositories"
  by (auto simp: advancedFilters_def Let_def)

text \<open>
  C6. With no quick filter active, both variants show the filtered repositories sorted:
  by descending stars when \<open>sortBy\<close> is \<open>stars\<close>; by descending time of the last commit
  when \<open>sortBy\<close> is \<open>updated\<close> and every non-empty date string is a valid date, where a
  missing date counts as time 0. When moreover every date is after the epoch, no
  repository with a date comes after one whose date is \<open>null\<close>.
\<close>

theorem defaultSort_order:
  "filteredRepositories1 e repositories term f [] =
     filteredRepositories2 e repositories term f [] \<and>
   mset (filteredRepositories2 e repositories term f []) =
     mset (advancedFilters e repositories term f) \<and>
   (sortBy f = Stars \<longrightarrow>
      sorted_wrt (\<lambda>a b. stars (health b) \<le> stars (health a))
        (filteredRepositories2 e repositories term f [])) \<and>
   (sortBy f = Updated \<and>
    (\<forall>p \<in> set repositories. \<forall>s. lastCommitDate (health p) = Some s \<and> s \<noteq> [] \<longrightarrow>
        newDate e s \<noteq> None) \<longrightarrow>
      sorted_wrt
        (\<lambda>a b. (case lastCommitDate (health b) of
                   None \<Rightarrow> 0
                 | Some s \<Rightarrow> (case newDate e s of None \<Rightarrow> 0 | Some t \<Rightarrow> t))
              \<le> (case lastCommitDate (health a) of
                   None \<Rightarrow> 0
                 | Some s \<Rightarrow> (case newDate e s of None \<Rightarrow> (0::int) | Some t \<Rightarrow> t)))
        (filteredRepositories2 e repositories term f []) \<and>
      ((\<forall>p \<in> set repositories. \<forall>s t. lastCommitDate (health p) = Some s \<and>
           newDate e s = Some t \<longrightarrow> 0 < t) \<longrightarrow>
       (\<forall>i j. i < j \<and> j < length (filteredRepositories2 e repositories term f []) \<and>
          lastCommitDate (health (filteredRepositories2 e repositories term f [] ! i)) = None \<longrightarrow>
          \<not> truthyOpt
              (lastCommitDate (health (filteredRepositories2 e repositories term f [] ! j))))))"
proof -
  let ?A = "advancedFilters e repositories term f"
  let ?R = "filteredRepositories2 e repositories term f []"
  let ?key = "\<lambda>p. case lastCommitDate (health p) of
                   None \<Rightarrow> (0::int)
                 | Some s \<Rightarrow> (case newDate e s of None \<Rightarrow> 0 | Some t \<Rightarrow> t)"
  have R: "?R = defaultSort e f ?A"
    by (simp add: filteredRepositories2_def truthy_def)
  have same: "filteredRepositories1 e repositories term f [] = ?R"
    by (simp add: filteredRepositories1_def filteredRepositories2_def truthy_def)
  have ms: "mset ?R = mset ?A" by (simp add: R mset_defaultSort)
  have st: "sortBy f = Stars \<longrightarrow> sorted_wrt (\<lambda>a b. stars (health b) \<le> stars (health a)) ?R"
    by (simp add: R defaultSort_def sorted_byStars)
  have up: "sorted_wrt (\<lambda>a b. ?key b \<le> ?key a) ?R"
    if u: "sortBy f = Updated"
      and v: "\<forall>p \<in> set repositories. \<forall>s. lastCommitDate (health p) = Some s \<and> s \<noteq> [] \<longrightarrow>
                newDate e s \<noteq> None"
  proof -
    have "\<forall>p \<in> set ?A. \<forall>s. lastCommitDate (health p) = Some s \<and> s \<noteq> [] \<longrightarrow> newDate e s \<noteq> None"
      using v set_advancedFilters [of e repositories "term" f] by blast
    then show ?thesis using u by (simp add: R defaultSort_def sorted_byUpdated)
  qed
  have last: "\<not> truthyOpt (lastCommitDate (health (?R ! j)))"
    if u: "sortBy f = Updated"
      and v: "\<forall>p \<in> set repositories. \<forall>s. lastCommitDate (health p) = Some s \<and> s \<noteq> [] \<longrightarrow>
                newDate e s \<noteq> None"
      and pos: "\<forall>p \<in> set repositories. \<forall>s t. lastCommitDate (health p) = Some s \<and>
                 newDate e s = Some t \<longrightarrow> 0 < t"
      and ij: "i < j" "j < length ?R" "lastCommitDate (health (?R ! i)) = None"
    for i j
  proof
    assume tr: "truthyOpt (lastCommitDate (health (?R ! j)))"
    then obtain s where s: "lastCommitDate (health (?R ! j)) = Some s" "s \<noteq> []"
      by (cases "lastCommitDate (health (?R ! j))") (auto simp: truthyOpt_def truthy_def)
    have "?R ! j \<in> set ?R" using ij(2) by simp
    then have mem: "?R ! j \<in> set repositories"
      using ms set_advancedFilters [of e repositories "term" f]
      by (metis set_mset_mset subsetD)
    then obtain t where t: "newDate e s = Some t" using v s by blast
    then have "0 < t" using pos mem s by blast
    then have kj: "0 < ?key (?R ! j)" using s t by simp
    have "?key (?R ! j) \<le> ?key (?R ! i)"
      using sorted_wrt_nth_less [OF up [OF u v] ij(1) ij(2)] .
    moreover have "?key (?R ! i) = 0" using ij(3) by simp
    ultimately show False using kj by simp
  qed
  show ?thesis using same ms st up last by blast
qed

theorem defaultSort_order_witness:
  "sortBy initialFilters = Stars \<and>
   filteredRepositories2 sampleEnv [lobsters, godot, nextjs] [] initialFilters [] =
     [nextjs, godot, lobsters] \<and>
   sorted_wrt (\<lambda>a b. stars (health b) \<le> stars (health a))
     (filteredRepositories2 sampleEnv [lobsters, godot, nextjs] [] initialFilters []) \<and>
   sortBy (initialFilters\<lparr>sortBy := Updated\<rparr>) = Updated \<and>
   filteredRepositories2 sampleEnv [undated, lobsters, undated, nextjs] []
     (initialFilters\<lparr>sortBy := Updated\<rparr>) [] = [nextjs, lobsters, undated, undated] \<and>
   lastCommitDate (health
     (filteredRepositories2 sampleEnv [undated, lobsters, undated, nextjs] []
        (initialFilters\<lparr>sortBy := Updated\<rparr>) [] ! 2)) = None \<and>
   \<not> truthyOpt (lastCommitDate (health
     (filteredRepositories2 sampleEnv [undated, lobsters, undated, nextjs] []
        (initialFilters\<lparr>sortBy := Updated\<rparr>) [] ! 3)))"
proof -
  let ?xs = "[undated, lobsters, undated, nextjs]"
  let ?f = "initialFilters\<lparr>sortBy := Updated\<rparr>"
  let ?R = "filteredRepositories2 sampleEnv ?xs [] ?f []"
  have s1: "sortBy initialFilters = Stars" by (simp add: initialFilters_def)
  have s2: "sortBy ?f = Updated" by simp
  have r1: "filteredRepositories2 sampleEnv [lobsters, godot, nextjs] [] initialFilters [] =
              [nextjs, godot, lobsters]"
    by code_simp
  have r2: "?R = [nextjs, lobsters, undated, undated]"
    by code_simp
  have v: "\<forall>p \<in> set ?xs. \<forall>s. lastCommitDate (health p) = Some s \<and> s \<noteq> [] \<longrightarrow>
             newDate sampleEnv s \<noteq> None"
    by (simp add: undated_def lobsters_def nextjs_def sample_newDate)
  have pos: "\<forall>p \<in> set ?xs. \<forall>s t. lastCommitDate (health p) = Some s \<and>
               newDate sampleEnv s = Some t \<longrightarrow> 0 < t"
    by (simp add: undated_def lobsters_def nextjs_def sample_newDate)
  note t1 = defaultSort_order [of sampleEnv "[lobsters, godot, nextjs]" "[]" initialFilters]
  note t2 = defaultSort_order [of sampleEnv ?xs "[]" ?f]
  have a: "sorted_wrt (\<lambda>a b. stars (health b) \<le> stars (health a))
     (filteredRepositories2 sampleEnv [lobsters, godot, nextjs] [] initialFilters [])"
    using t1 s1 by blast
  have n2: "lastCommitDate (health (?R ! 2)) = None"
    unfolding r2 by (simp add: undated_def)
  have len: "(2::nat) < 3 \<and> 3 < length ?R" unfolding r2 by simp
  have b: "\<not> truthyOpt (lastCommitDate (health (?R ! 3)))"
    using t2 s2 v pos n2 len by blast
  show ?thesis using s1 s2 r1 r2 a n2 b by blast
qed

section \<open>Quick filters\<close>

lemma labels_distinct:
  "trendingLabel \<noteq> goodFirstIssuesLabel" "trendingLabel \<noteq> activeTodayLabel"
  "trendingLabel \<noteq> hiddenGemsLabel" "goodFirstIssuesLabel \<noteq> activeTodayLabel"
  "goodFirstIssuesLabel \<noteq> hiddenGemsLabel" "activeTodayLabel \<noteq> hiddenGemsLabel"
  "trendingLabel \<noteq> []" "goodFirstIssuesLabel \<noteq> []" "activeTodayLabel \<noteq> []"
  "hiddenGemsLabel \<noteq> []"
  by (simp_all add: trendingLabel_def goodFirstIssuesLabel_def activeTodayLabel_def
        hiddenGemsLabel_def)

lemma advancedFilters_sortBy:
  "advancedFilters e repositories term (f\<lparr>sortBy := s\<rparr>) = advancedFilters e repositories term f"
  by (simp add: advancedFilters_def Let_def)

lemma formatDate_Today:
  "truthyOpt v \<and> formatDate e v = ''Today'' \<longleftrightarrow>
     (\<exists>s t. v = Some s \<and> newDate e s = Some t \<and> (now e - t) div 86400000 = 0)"
proof (cases v)
  case None
  then show ?thesis by (simp add: truthyOpt_def)
next
  case (Some s)
  show ?thesis
  proof (cases "s = []")
    case True
    with Some show ?thesis by (simp add: truthyOpt_def truthy_def newDate_def)
  next
    case False
    show ?thesis
    proof (cases "newDate e s")
      case None
      with Some False show ?thesis by (simp add: truthyOpt_def truthy_def formatDate_def)
    next
      case (Some t)
      have ne: "xs @ '' days ago'' \<noteq> ''Today''" "xs @ '' weeks ago'' \<noteq> ''Today''"
        "xs @ '' months ago'' \<noteq> ''Today''" for xs :: string
      proof -
        show "xs @ '' days ago'' \<noteq> ''Today''"
        proof
          assume h: "xs @ '' days ago'' = ''Today''"
          from arg_cong [OF h, of last] show False by simp
        qed
        show "xs @ '' weeks ago'' \<noteq> ''Today''"
        proof
          assume h: "xs @ '' weeks ago'' = ''Today''"
          from arg_cong [OF h, of last] show False by simp
        qed
        show "xs @ '' months ago'' \<noteq> ''Today''"
        proof
          assume h: "xs @ '' months ago'' = ''Today''"
          from arg_cong [OF h, of last] show False by simp
        qed
      qed
      from Some \<open>v = Some s\<close> False show ?thesis
        by (simp add: truthyOpt_def truthy_def formatDate_def Let_def msPerDay_def ne)
    qed
  qed
qed


lemma quickFilter2_cases:
  "quickFilter2 e trendingLabel xs =
     sortJS byCommitsLastMonth (filter (committedAfter e (monthAgo e)) xs)"
  "quickFilter2 e goodFirstIssuesLabel xs =
     sortJS byGoodFirstIssues (filter (\<lambda>p. 0 < goodFirstIssues p) xs)"
  "quickFilter2 e activeTodayLabel xs = filter (activeToday e) xs"
  "quickFilter2 e hiddenGemsLabel xs = sortJS byStars (filter isHiddenGem xs)"
  by (simp_all add: quickFilter2_def labels_distinct labels_distinct [symmetric])

lemma mset_quickFilters: "mset (quickFilter1 e q xs) = mset (quickFilter2 e q xs)"
  by (simp add: quickFilter1_def quickFilter2_def mset_sortJS)

lemma activeToday_iff:
  "activeToday e p \<longleftrightarrow>
     (\<exists>s t. lastCommitDate (health p) = Some s \<and> newDate e s = Some t \<and>
            (now e - t) div 86400000 = 0)"
  unfolding activeToday_def by (rule formatDate_Today)

text \<open>
  C3, as amended. When a quick filter is active, the \<open>sortBy\<close> setting has no effect on
  the list, in either variant. In the second variant the list holds the repositories
  that pass the search term and the advanced filters and, on top of these, the quick
  filter's own predicate, in the quick filter's own order: committed after \<open>monthAgo\<close>,
  by descending commits of the last month, for Trending; with good first issues, by
  their descending number, for Good First Issues; committed less than a whole day ago,
  in the order of the filtered list, for Active Today; between 1000 and 20000 stars
  (exclusive), by descending stars, for Hidden Gems; an unknown name changes nothing.
  Changing an advanced filter deactivates the quick filter.
\<close>

theorem quickFilter_overrides_sortBy:
  assumes "q \<noteq> []"
  shows "filteredRepositories2 e repositories term (f\<lparr>sortBy := s\<rparr>) q =
           filteredRepositories2 e repositories term f q \<and>
         filteredRepositories1 e repositories term (f\<lparr>sortBy := s\<rparr>) q =
           filteredRepositories1 e repositories term f q \<and>
         (q = trendingLabel \<longrightarrow>
            mset (filteredRepositories2 e repositories term f q) =
              mset (filter (\<lambda>p. \<exists>d t. lastCommitDate (health p) = Some d \<and>
                                 newDate e d = Some t \<and> monthAgo e < t)
                      (advancedFilters e repositories term f)) \<and>
            sorted_wrt (\<lambda>a b. commitsLastMonth (health b) \<le> commitsLastMonth (health a))
              (filteredRepositories2 e repositories term f q)) \<and>
         (q = goodFirstIssuesLabel \<longrightarrow>
            mset (filteredRepositories2 e repositories term f q) =
              mset (filter (\<lambda>p. 0 < goodFirstIssues p) (advancedFilters e repositories term f)) \<and>
            sorted_wrt (\<lambda>a b. goodFirstIssues b \<le> goodFirstIssues a)
              (filteredRepositories2 e repositories term f q)) \<and>
         (q = activeTodayLabel \<longrightarrow>
            filteredRepositories2 e repositories term f q =
              filter (\<lambda>p. \<exists>d t. lastCommitDate (health p) = Some d \<and> newDate e d = Some t \<and>
                           (now e - t) div 86400000 = 0)
                (advancedFilters e repositories term f)) \<and>
         (q = hiddenGemsLabel \<longrightarrow>
            mset (filteredRepositories2 e repositories term f q) =
              mset (filter (\<lambda>p. 1000 < stars (health p) \<and> stars (health p) < 20000)
                      (advancedFilters e repositories term f)) \<and>
            sorted_wrt (\<lambda>a b. stars (health b) \<le> stars (health a))
              (filteredRepositories2 e repositories term f q)) \<and>
         (q \<noteq> trendingLabel \<and> q \<noteq> goodFirstIssuesLabel \<and> q \<noteq> activeTodayLabel \<and>
          q \<noteq> hiddenGemsLabel \<longrightarrow>
            filteredRepositories2 e repositories term f q =
              advancedFilters e repositories term f) \<and>
         activeQuickFilter (handleFilterChange ev d) = []"
proof -
  let ?A = "advancedFilters e repositories term f"
  have R: "filteredRepositories2 e repositories term f q = quickFilter2 e q ?A"
    using assms by (simp add: filteredRepositories2_def truthy_def)
  have s2: "filteredRepositories2 e repositories term (f\<lparr>sortBy := s\<rparr>) q =
           filteredRepositories2 e repositories term f q"
    using assms by (simp add: filteredRepositories2_def truthy_def advancedFilters_sortBy)
  have s1: "filteredRepositories1 e repositories term (f\<lparr>sortBy := s\<rparr>) q =
           filteredRepositories1 e repositories term f q"
    using assms by (simp add: filteredRepositories1_def truthy_def advancedFilters_sortBy)
  have ca: "committedAfter e (monthAgo e) =
              (\<lambda>p. \<exists>d t. lastCommitDate (health p) = Some d \<and> newDate e d = Some t \<and>
                     monthAgo e < t)"
    by (rule ext) (rule committedAfter_iff)
  have at: "activeToday e =
              (\<lambda>p. \<exists>d t. lastCommitDate (health p) = Some d \<and> newDate e d = Some t \<and>
                     (now e - t) div 86400000 = 0)"
    by (rule ext) (rule activeToday_iff)
  have hg: "isHiddenGem = (\<lambda>p. 1000 < stars (health p) \<and> stars (health p) < 20000)"
    by (rule ext) (simp add: isHiddenGem_def)
  have t: "q = trendingLabel \<longrightarrow>
            mset (filteredRepositories2 e repositories term f q) =
              mset (filter (\<lambda>p. \<exists>d t. lastCommitDate (health p) = Some d \<and>
                                 newDate e d = Some t \<and> monthAgo e < t) ?A) \<and>
            sorted_wrt (\<lambda>a b. commitsLastMonth (health b) \<le> commitsLastMonth (health a))
              (filteredRepositories2 e repositories term f q)"
    unfolding R by (simp add: quickFilter2_cases mset_sortJS sorted_byCommitsLastMonth ca)
  have g: "q = goodFirstIssuesLabel \<longrightarrow>
            mset (filteredRepositories2 e repositories term f q) =
              mset (filter (\<lambda>p. 0 < goodFirstIssues p) ?A) \<and>
            sorted_wrt (\<lambda>a b. goodFirstIssues b \<le> goodFirstIssues a)
              (filteredRepositories2 e repositories term f q)"
    unfolding R by (simp add: quickFilter2_cases mset_sortJS sorted_byGoodFirstIssues)
  have a: "q = activeTodayLabel \<longrightarrow>
            filteredRepositories2 e repositories term f q =
              filter (\<lambda>p. \<exists>d t. lastCommitDate (health p) = Some d \<and> newDate e d = Some t \<and>
                           (now e - t) div 86400000 = 0) ?A"
    unfolding R by (simp add: quickFilter2_cases at)
  have h: "q = hiddenGemsLabel \<longrightarrow>
            mset (filteredRepositories2 e repositories term f q) =
              mset (filter (\<lambda>p. 1000 < stars (health p) \<and> stars (health p) < 20000) ?A) \<and>
            sorted_wrt (\<lambda>a b. stars (health b) \<le> stars (health a))
              (filteredRepositories2 e repositories term f q)"
    unfolding R by (simp add: quickFilter2_cases mset_sortJS sorted_byStars hg)
  have o: "q \<noteq> trendingLabel \<and> q \<noteq> goodFirstIssuesLabel \<and> q \<noteq> activeTodayLabel \<and>
          q \<noteq> hiddenGemsLabel \<longrightarrow> filteredRepositories2 e repositories term f q = ?A"
    unfolding R by (simp add: quickFilter2_def)
  have c: "activeQuickFilter (handleFilterChange ev d) = []"
    by (simp add: handleFilterChange_def)
  show ?thesis using s1 s2 t g a h o c by blast
qed

theorem quickFilter_overrides_sortBy_witness:
  "goodFirstIssuesLabel \<noteq> [] \<and>
   filteredRepositories2 sampleEnv sampleRepositories [] (pyFilters\<lparr>sortBy := Updated\<rparr>)
     goodFirstIssuesLabel =
   filteredRepositories2 sampleEnv sampleRepositories [] pyFilters goodFirstIssuesLabel \<and>
   filteredRepositories2 sampleEnv sampleRepositories [] pyFilters goodFirstIssuesLabel =
     [fastapi] \<and>
   sorted_wrt (\<lambda>a b. goodFirstIssues b \<le> goodFirstIssues a)
     (filteredRepositories2 sampleEnv sampleRepositories [] initialFilters goodFirstIssuesLabel) \<and>
   filteredRepositories2 sampleEnv sampleRepositories [] initialFilters goodFirstIssuesLabel =
     [godot, nextjs, fastapi, lobsters] \<and>
   activeTodayLabel \<noteq> [] \<and>
   filteredRepositories2 sampleEnv sampleRepositories [] initialFilters activeTodayLabel =
     [nextjs]"
proof -
  note g = quickFilter_overrides_sortBy [OF labels_distinct(8)]
  have a: "filteredRepositories2 sampleEnv sampleRepositories [] (pyFilters\<lparr>sortBy := Updated\<rparr>)
     goodFirstIssuesLabel =
   filteredRepositories2 sampleEnv sampleRepositories [] pyFilters goodFirstIssuesLabel"
    using g [where e = sampleEnv and repositories = sampleRepositories and f = pyFilters
        and s = Updated]
    by blast
  have b: "sorted_wrt (\<lambda>a b. goodFirstIssues b \<le> goodFirstIssues a)
     (filteredRepositories2 sampleEnv sampleRepositories [] initialFilters goodFirstIssuesLabel)"
    using g [where e = sampleEnv and repositories = sampleRepositories and f = initialFilters
        and s = Updated]
    by blast
  have c: "filteredRepositories2 sampleEnv sampleRepositories [] pyFilters goodFirstIssuesLabel =
     [fastapi]"
    by code_simp
  have d: "filteredRepositories2 sampleEnv sampleRepositories [] initialFilters
     goodFirstIssuesLabel = [godot, nextjs, fastapi, lobsters]"
    by code_simp
  have e: "filteredRepositories2 sampleEnv sampleRepositories [] initialFilters activeTodayLabel =
     [nextjs]"
    by code_simp
  show ?thesis using a b c d e labels_distinct(8,9) by simp
qed

text \<open>
  The claim as stated, that an active quick filter alone determines the content, fails:
  after choosing the language Python and then the quick filter Good First Issues, the
  list is FastAPI only, while the same quick filter with no language chosen shows all
  four samples.
\<close>

theorem quickFilter_content_counterexample:
  "activeQuickFilter
     (handleQuickFilterClick goodFirstIssuesLabel
        (handleFilterChange (ChangeLanguage ''Python'')
           \<lparr>searchTerm = [], filters = initialFilters, activeQuickFilter = []\<rparr>)) =
     goodFirstIssuesLabel \<and>
   filters
     (handleQuickFilterClick goodFirstIssuesLabel
        (handleFilterChange (ChangeLanguage ''Python'')
           \<lparr>searchTerm = [], filters = initialFilters, activeQuickFilter = []\<rparr>)) =
     initialFilters\<lparr>language := ''Python''\<rparr> \<and>
   goodFirstIssuesLabel \<noteq> [] \<and>
   filteredRepositories2 sampleEnv sampleRepositories []
     (initialFilters\<lparr>language := ''Python''\<rparr>) goodFirstIssuesLabel = [fastapi] \<and>
   filteredRepositories2 sampleEnv sampleRepositories [] initialFilters goodFirstIssuesLabel =
     [godot, nextjs, fastapi, lobsters] \<and>
   filteredRepositories2 sampleEnv sampleRepositories []
     (initialFilters\<lparr>language := ''Python''\<rparr>) goodFirstIssuesLabel \<noteq>
   filteredRepositories2 sampleEnv sampleRepositories [] initialFilters goodFirstIssuesLabel"
proof -
  have a: "filteredRepositories2 sampleEnv sampleRepositories []
     (initialFilters\<lparr>language := ''Python''\<rparr>) goodFirstIssuesLabel = [fastapi]"
    by code_simp
  have b: "filteredRepositories2 sampleEnv sampleRepositories [] initialFilters
     goodFirstIssuesLabel = [godot, nextjs, fastapi, lobsters]"
    by code_simp
  have c: "[fastapi] \<noteq> [godot, nextjs, fastapi, lobsters]" by simp
  have d: "activeQuickFilter
     (handleQuickFilterClick goodFirstIssuesLabel
        (handleFilterChange (ChangeLanguage ''Python'')
           \<lparr>searchTerm = [], filters = initialFilters, activeQuickFilter = []\<rparr>)) =
     goodFirstIssuesLabel \<and>
   filters
     (handleQuickFilterClick goodFirstIssuesLabel
        (handleFilterChange (ChangeLanguage ''Python'')
           \<lparr>searchTerm = [], filters = initialFilters, activeQuickFilter = []\<rparr>)) =
     initialFilters\<lparr>language := ''Python''\<rparr>"
    by (simp add: handleQuickFilterClick_def handleFilterChange_def labels_distinct)
  show ?thesis using a b c d labels_distinct(8) by simp
qed

section \<open>The two variants\<close>

text \<open>
  C7, as amended. For the same repositories, search term, advanced filters and quick
  filter, the two variants show the same repositories (as multisets). They show them in
  the same order when no quick filter is active and when the quick filter is Active
  Today or an unknown name; for Trending, Good First Issues and Hidden Gems the second
  variant sorts where the first one sorts by another key or not at all.
\<close>

theorem variants_agree:
  "(q \<noteq> trendingLabel \<and> q \<noteq> goodFirstIssuesLabel \<and> q \<noteq> hiddenGemsLabel \<longrightarrow>
      filteredRepositories1 e repositories term f q =
        filteredRepositories2 e repositories term f q) \<and>
   mset (filteredRepositories1 e repositories term f q) =
     mset (filteredRepositories2 e repositories term f q)"
proof -
  have m: "mset (filteredRepositories1 e repositories term f q) =
             mset (filteredRepositories2 e repositories term f q)"
    by (simp add: filteredRepositories1_def filteredRepositories2_def Let_def mset_quickFilters)
  have same: "quickFilter1 e q xs = quickFilter2 e q xs"
    if "q \<noteq> trendingLabel" "q \<noteq> goodFirstIssuesLabel" "q \<noteq> hiddenGemsLabel" for xs
    using that by (simp add: quickFilter1_def quickFilter2_def)
  have "q \<noteq> trendingLabel \<and> q \<noteq> goodFirstIssuesLabel \<and> q \<noteq> hiddenGemsLabel \<longrightarrow>
      filteredRepositories1 e repositories term f q =
        filteredRepositories2 e repositories term f q"
    by (simp add: filteredRepositories1_def filteredRepositories2_def Let_def same)
  then show ?thesis using m by blast
qed

theorem variants_agree_witness:
  "activeTodayLabel \<noteq> trendingLabel \<and> activeTodayLabel \<noteq> goodFirstIssuesLabel \<and>
   activeTodayLabel \<noteq> hiddenGemsLabel \<and>
   filteredRepositories1 sampleEnv sampleRepositories [] initialFilters activeTodayLabel =
     filteredRepositories2 sampleEnv sampleRepositories [] initialFilters activeTodayLabel \<and>
   filteredRepositories2 sampleEnv sampleRepositories [] initialFilters activeTodayLabel =
     [nextjs] \<and>
   mset (filteredRepositories1 sampleEnv sampleRepositories [] initialFilters trendingLabel) =
     mset (filteredRepositories2 sampleEnv sampleRepositories [] initialFilters trendingLabel)"
proof -
  have d: "activeTodayLabel \<noteq> trendingLabel \<and> activeTodayLabel \<noteq> goodFirstIssuesLabel \<and>
   activeTodayLabel \<noteq> hiddenGemsLabel"
    using labels_distinct by metis
  have a: "filteredRepositories1 sampleEnv sampleRepositories [] initialFilters activeTodayLabel =
     filteredRepositories2 sampleEnv sampleRepositories [] initialFilters activeTodayLabel"
    using variants_agree [of activeTodayLabel sampleEnv sampleRepositories "[]" initialFilters] d
    by blast
  have b: "filteredRepositories2 sampleEnv sampleRepositories [] initialFilters activeTodayLabel =
     [nextjs]"
    by code_simp
  have c: "mset (filteredRepositories1 sampleEnv sampleRepositories [] initialFilters
                   trendingLabel) =
     mset (filteredRepositories2 sampleEnv sampleRepositories [] initialFilters trendingLabel)"
    using variants_agree [of trendingLabel sampleEnv sampleRepositories "[]" initialFilters]
    by blast
  show ?thesis using a b c d by blast
qed

text \<open>
  The claim as stated fails for Trending: the first variant orders by stars, the second
  one by the commits of the last month.
\<close>

theorem variants_differ_counterexample:
  "filteredRepositories1 sampleEnv sampleRepositories [] initialFilters trendingLabel =
     [nextjs, godot, fastapi, lobsters] \<and>
   filteredRepositories2 sampleEnv sampleRepositories [] initialFilters trendingLabel =
     [godot, nextjs, fastapi, lobsters] \<and>
   filteredRepositories1 sampleEnv sampleRepositories [] initialFilters trendingLabel \<noteq>
   filteredRepositories2 sampleEnv sampleRepositories [] initialFilters trendingLabel"
proof -
  have a: "filteredRepositories1 sampleEnv sampleRepositories [] initialFilters trendingLabel =
     [nextjs, godot, fastapi, lobsters]"
    by code_simp
  have b: "filteredRepositories2 sampleEnv sampleRepositories [] initialFilters trendingLabel =
     [godot, nextjs, fastapi, lobsters]"
    by code_simp
  have c: "nextjs \<noteq> godot" by (simp add: nextjs_def godot_def)
  show ?thesis using a b c by simp
qed

end
